theory Spec2Isabelle
  imports Complex_Main "HOL-Library.Sublist"
begin

section \<open>Python values, exceptions and text\<close>

text \<open>
  The two front-ends are \<^verbatim>\<open>CansatTerminal.py\<close> (interactive script) and
  \<^verbatim>\<open>flask_app.py\<close> (one web route). Both delegate the physics to an external
  flight engine; what the repository owns is parameter intake, the motor descriptor, the
  checks on the solution matrix and the plotting calls.

  Exceptions are values of \<open>error\<close>; a call that may raise returns \<open>error + 'a\<close>.
  The constructors are the exception classes the code meets (NameError carries the name
  that is not bound); \<open>OtherError\<close> is any other subclass of Python's
  \<^verbatim>\<open>Exception\<close>, tagged with a name.
\<close>

datatype error =
  ValueError | EOFError | IndexError | AttributeError | NameError string | TypeError
| ZeroDivisionError | OtherError string

text \<open>
  Text is a list of bytes. The accented letters of the Spanish messages are written as
  their UTF-8 encoding.
\<close>

definition a_acute :: string where "a_acute = [CHR 0xC3, CHR 0xA1]"
definition e_acute :: string where "e_acute = [CHR 0xC3, CHR 0xA9]"
definition i_acute :: string where "i_acute = [CHR 0xC3, CHR 0xAD]"
definition o_acute :: string where "o_acute = [CHR 0xC3, CHR 0xB3]"
definition u_acute :: string where "u_acute = [CHR 0xC3, CHR 0xBA]"
definition I_acute :: string where "I_acute = [CHR 0xC3, CHR 0x8D]"
definition newline :: string where "newline = [CHR 0x0A]"

section \<open>Parameter intake (CansatTerminal.py, get\_float\_input)\<close>

text \<open>
  Standard input is a sequence of lines, \<open>None\<close> from the end of input on (where
  \<^verbatim>\<open>input()\<close> raises EOFError). Standard output is the list of texts written.
  Python's \<^verbatim>\<open>float()\<close> on a string and \<^verbatim>\<open>str()\<close> on a float are parameters:
  \<open>pyfloat s = None\<close> stands for the ValueError that \<^verbatim>\<open>float(s)\<close> raises.
\<close>

type_synonym stdin = "nat \<Rightarrow> string option"

definition stdin_of :: "string list \<Rightarrow> stdin" where
  "stdin_of ls i = (if i < length ls then Some (ls ! i) else None)"

definition invalid_entry_msg :: string where
  "invalid_entry_msg =
     ''Entrada inv'' @ a_acute @ ''lida. Por favor, ingrese un n'' @ u_acute @ ''mero.''"

definition prompt_text :: "('v \<Rightarrow> string) \<Rightarrow> string \<Rightarrow> 'v \<Rightarrow> string" where
  "prompt_text str prompt default_value = prompt @ '' ['' @ str default_value @ '']: ''"

text \<open>The body of the \<^verbatim>\<open>try\<close> block, after the line has been read.\<close>

definition read_float :: "(string \<Rightarrow> 'v option) \<Rightarrow> 'v \<Rightarrow> string option \<Rightarrow> error + 'v" where
  "read_float pyfloat default_value line =
     (case line of
        None \<Rightarrow> Inl EOFError
      | Some value_str \<Rightarrow>
          if value_str = [] then Inr default_value
          else (case pyfloat value_str of None \<Rightarrow> Inl ValueError | Some v \<Rightarrow> Inr v))"

text \<open>
  The \<^verbatim>\<open>while True\<close> loop. \<^verbatim>\<open>except ValueError\<close> prints the diagnostic and
  goes round again; any other exception leaves the function. The loop need not end, so the
  result is an option: \<open>None\<close> is "never returns". The arguments \<open>pos\<close> and \<open>out\<close> are
  the number of lines read so far and the output so far; both are returned updated.
\<close>

partial_function (option) get_float_input ::
  "(string \<Rightarrow> 'v option) \<Rightarrow> ('v \<Rightarrow> string) \<Rightarrow> stdin \<Rightarrow> string \<Rightarrow> 'v \<Rightarrow> nat \<Rightarrow> string list
     \<Rightarrow> ((error + 'v) \<times> nat \<times> string list) option"
where
  "get_float_input pyfloat str inp prompt default_value pos out =
     (case read_float pyfloat default_value (inp pos) of
        Inr v \<Rightarrow> Some (Inr v, Suc pos, out @ [prompt_text str prompt default_value])
      | Inl ValueError \<Rightarrow>
          get_float_input pyfloat str inp prompt default_value (Suc pos)
            (out @ [prompt_text str prompt default_value, invalid_entry_msg])
      | Inl e \<Rightarrow> Some (Inl e, pos, out @ [prompt_text str prompt default_value]))"

text \<open>A line that is neither empty nor accepted by \<^verbatim>\<open>float()\<close>.\<close>

definition invalid_line :: "(string \<Rightarrow> 'v option) \<Rightarrow> string option \<Rightarrow> bool" where
  "invalid_line pyfloat line =
     (case line of None \<Rightarrow> False | Some s \<Rightarrow> s \<noteq> [] \<and> pyfloat s = None)"

text \<open>What \<open>n\<close> rejected entries leave on the output: the prompt and the diagnostic, \<open>n\<close> times.\<close>

definition reprompts :: "('v \<Rightarrow> string) \<Rightarrow> string \<Rightarrow> 'v \<Rightarrow> nat \<Rightarrow> string list" where
  "reprompts str prompt default_value n =
     concat (replicate n [prompt_text str prompt default_value, invalid_entry_msg])"

text \<open>The compiled-in defaults (the same in both front-ends).\<close>

definition default_inclination :: real where "default_inclination = 90.0"
definition default_heading :: real where "default_heading = 0.0"
definition default_rail_length :: real where "default_rail_length = 1.2"
definition default_cansat_mass :: real where "default_cansat_mass = 0.3"
definition default_drag_coeff :: real where "default_drag_coeff = 0.6"
definition default_burn_time :: real where "default_burn_time = 2.0"
definition default_avg_thrust :: real where "default_avg_thrust = 10.0"
definition default_elevation :: real where "default_elevation = 20.0"

text \<open>
  Sample instances of the two parameters, used at concrete inputs only: \<open>float_sample\<close>
  agrees with \<^verbatim>\<open>float()\<close> on the strings listed and on the strings \<^verbatim>\<open>abc\<close> and
  \<^verbatim>\<open>x\<close>, which \<^verbatim>\<open>float()\<close> rejects; \<open>str_sample\<close> agrees with \<^verbatim>\<open>str()\<close> on
  the defaults listed.
\<close>

definition float_sample :: "string \<Rightarrow> real option" where
  "float_sample s =
     (if s = ''5'' then Some 5 else if s = ''2.5'' then Some 2.5
      else if s = ''45'' then Some 45 else None)"

definition str_sample :: "real \<Rightarrow> string" where
  "str_sample v =
     (if v = 90 then ''90.0'' else if v = 0.3 then ''0.3'' else if v = 0 then ''0.0'' else ''?'')"

section \<open>The motor descriptor\<close>

text \<open>
  The keyword arguments each front-end passes to the engine's \<^verbatim>\<open>SolidMotor\<close>. The
  terminal script uses the engine's snake-case names, the server its older camel-case
  names. Float literals denote the numbers written; no arithmetic is done on them.
\<close>

datatype thrust_source = Constant real | Curve "(real \<times> real) list"

record solid_motor_args =
  thrust_source :: thrust_source
  burn_time :: real
  dry_mass :: real
  dry_inertia :: "real \<times> real \<times> real"
  center_of_dry_mass_position :: real
  grains_center_of_mass_position :: real
  grain_number :: nat
  grain_separation :: real
  grain_density :: real
  grain_outer_radius :: real
  grain_initial_inner_radius :: real
  grain_initial_height :: real
  nozzle_radius :: real
  throat_radius :: real
  interpolation_method :: string
  nozzle_position :: real
  coordinate_system_orientation :: string

definition gas_motor :: "real \<Rightarrow> real \<Rightarrow> solid_motor_args" where
  "gas_motor user_avg_thrust user_burn_time =
     \<lparr> thrust_source = Constant user_avg_thrust,
       burn_time = user_burn_time,
       dry_mass = 0.5,
       dry_inertia = (0.02, 0.02, 0.001),
       center_of_dry_mass_position = 0.15,
       grains_center_of_mass_position = 0.2,
       grain_number = 1,
       grain_separation = 0.005,
       grain_density = 1700.0,
       grain_outer_radius = 0.02,
       grain_initial_inner_radius = 0.005,
       grain_initial_height = 0.08,
       nozzle_radius = 0.01,
       throat_radius = 0.005,
       interpolation_method = ''linear'',
       nozzle_position = 0.0,
       coordinate_system_orientation = ''nozzle_to_combustion_chamber'' \<rparr>"

record solid_motor_kwargs =
  thrustSource :: thrust_source
  burnOut :: real
  grainNumber :: nat
  grainDensity :: real
  grainOuterRadius :: real
  grainInitialInnerRadius :: real
  grainInitialHeight :: real
  nozzleRadius :: real
  throatRadius :: real
  interpolationMethod :: string

definition thrust_curve :: "real \<Rightarrow> real \<Rightarrow> (real \<times> real) list" where
  "thrust_curve avg_thrust burn_time' = [(0, avg_thrust), (burn_time', avg_thrust)]"

definition GasMotor :: "real \<Rightarrow> real \<Rightarrow> solid_motor_kwargs" where
  "GasMotor avg_thrust burn_time' =
     \<lparr> thrustSource = Curve (thrust_curve avg_thrust burn_time'),
       burnOut = burn_time',
       grainNumber = 1,
       grainDensity = 1800,
       grainOuterRadius = 0.02,
       grainInitialInnerRadius = 0.005,
       grainInitialHeight = 0.05,
       nozzleRadius = 0.01,
       throatRadius = 0.005,
       interpolationMethod = ''linear'' \<rparr>"

section \<open>The solution matrix\<close>

text \<open>
  A two-dimensional array of shape \<open>(nrows, ncols)\<close>; either dimension may be 0.
  \<open>column a j\<close> is \<^verbatim>\<open>a[:, j]\<close>, which raises IndexError when \<open>j\<close> is not a column.
\<close>

record 'v ndarray =
  nrows :: nat
  ncols :: nat
  cell :: "nat \<Rightarrow> nat \<Rightarrow> 'v"

definition size_of :: "'v ndarray \<Rightarrow> nat" where
  "size_of a = nrows a * ncols a"

definition column :: "'v ndarray \<Rightarrow> nat \<Rightarrow> error + 'v list" where
  "column a j =
     (if j < ncols a then Inr (map (\<lambda>i. cell a i j) [0..<nrows a]) else Inl IndexError)"

section \<open>The plotting library\<close>

text \<open>
  The part of matplotlib's state the code depends on. pyplot keeps the open figures in
  order of activation: the last one is the current figure, and a figure's last panel is
  its current axes. \<^verbatim>\<open>plt.figure()\<close> numbers a new figure one above the largest
  open number (1 when none is open); \<^verbatim>\<open>plt.close(fig)\<close> removes a figure from the
  registry; \<^verbatim>\<open>plt.savefig\<close> and \<^verbatim>\<open>plt.tight_layout\<close> act on the current figure;
  \<^verbatim>\<open>plt.plot\<close> and \<^verbatim>\<open>plt.legend\<close> on the current axes. A figure object is referred
  to by its number, an axes object by its figure's number and its position among the
  panels. The library's calls are taken to succeed; the sizes passed (\<^verbatim>\<open>figsize\<close>,
  \<^verbatim>\<open>dpi\<close>) are left out. New axes have no line, no legend and no labels; the grid is
  off on two-dimensional axes and on on three-dimensional ones.
\<close>

datatype 'v line =
  Line2D "'v list" "'v list" string
| Line3D "'v list" "'v list" "'v list" string

record 'v axes =
  geometry :: "nat \<times> nat \<times> nat"
  projection3d :: bool
  lines :: "'v line list"
  legend :: bool
  grid :: bool
  xlabel :: string
  ylabel :: string
  zlabel :: string
  title :: string

record 'v figure =
  number :: nat
  panels :: "'v axes list"
  tight :: bool

definition new_axes :: "nat \<times> nat \<times> nat \<Rightarrow> bool \<Rightarrow> 'v axes" where
  "new_axes g p3 =
     \<lparr> geometry = g, projection3d = p3, lines = [], legend = False, grid = p3,
       xlabel = [], ylabel = [], zlabel = [], title = [] \<rparr>"

definition next_num :: "'v figure list \<Rightarrow> nat" where
  "next_num fs = (if fs = [] then 1 else Suc (fold max (map number fs) 0))"

definition plt_figure :: "'v figure list \<Rightarrow> 'v figure list" where
  "plt_figure fs = fs @ [\<lparr> number = next_num fs, panels = [], tight = False \<rparr>]"

definition gcf :: "'v figure list \<Rightarrow> 'v figure list" where
  "gcf fs = (if fs = [] then plt_figure fs else fs)"

definition on_current_figure :: "('v figure \<Rightarrow> 'v figure) \<Rightarrow> 'v figure list \<Rightarrow> 'v figure list" where
  "on_current_figure f fs = butlast (gcf fs) @ [f (last (gcf fs))]"

definition gca :: "'v figure \<Rightarrow> 'v figure" where
  "gca fig = (if panels fig = [] then fig\<lparr>panels := [new_axes (1, 1, 1) False]\<rparr> else fig)"

definition on_current_axes :: "('v axes \<Rightarrow> 'v axes) \<Rightarrow> 'v figure list \<Rightarrow> 'v figure list" where
  "on_current_axes f =
     on_current_figure
       (\<lambda>fig. (gca fig)\<lparr>panels := butlast (panels (gca fig)) @ [f (last (panels (gca fig)))]\<rparr>)"

definition plt_subplot :: "nat \<Rightarrow> nat \<Rightarrow> nat \<Rightarrow> 'v figure list \<Rightarrow> 'v figure list" where
  "plt_subplot r c i =
     on_current_figure (\<lambda>fig. fig\<lparr>panels := panels fig @ [new_axes (r, c, i) False]\<rparr>)"

definition plt_plot :: "'v list \<Rightarrow> 'v list \<Rightarrow> string \<Rightarrow> 'v figure list \<Rightarrow> 'v figure list" where
  "plt_plot xs ys lbl = on_current_axes (\<lambda>ax. ax\<lparr>lines := lines ax @ [Line2D xs ys lbl]\<rparr>)"

definition plt_legend :: "'v figure list \<Rightarrow> 'v figure list" where
  "plt_legend = on_current_axes (\<lambda>ax. ax\<lparr>legend := True\<rparr>)"

definition plt_tight_layout :: "'v figure list \<Rightarrow> 'v figure list" where
  "plt_tight_layout = on_current_figure (\<lambda>fig. fig\<lparr>tight := True\<rparr>)"

definition plt_close :: "nat \<Rightarrow> 'v figure list \<Rightarrow> 'v figure list" where
  "plt_close n fs = filter (\<lambda>fig. number fig \<noteq> n) fs"

text \<open>Calls on a figure or axes object.\<close>

definition on_figure :: "nat \<Rightarrow> ('v figure \<Rightarrow> 'v figure) \<Rightarrow> 'v figure list \<Rightarrow> 'v figure list" where
  "on_figure n f fs = map (\<lambda>fig. if number fig = n then f fig else fig) fs"

definition on_axes :: "nat \<Rightarrow> nat \<Rightarrow> ('v axes \<Rightarrow> 'v axes) \<Rightarrow> 'v figure list \<Rightarrow> 'v figure list" where
  "on_axes n k f =
     on_figure n
       (\<lambda>fig. if k < length (panels fig)
              then fig\<lparr>panels := (panels fig)[k := f (panels fig ! k)]\<rparr> else fig)"

definition the_figure :: "nat \<Rightarrow> 'v figure list \<Rightarrow> 'v figure" where
  "the_figure n fs =
     (case find (\<lambda>fig. number fig = n) fs of
        Some fig \<Rightarrow> fig
      | None \<Rightarrow> \<lparr> number = n, panels = [], tight = False \<rparr>)"

definition fig_add_subplot :: "nat \<Rightarrow> nat \<times> nat \<times> nat \<Rightarrow> bool \<Rightarrow> 'v figure list \<Rightarrow> 'v figure list" where
  "fig_add_subplot n g p3 = on_figure n (\<lambda>fig. fig\<lparr>panels := panels fig @ [new_axes g p3]\<rparr>)"

definition plt_subplots :: "'v figure list \<Rightarrow> 'v figure list" where
  "plt_subplots fs = fig_add_subplot (next_num fs) (1, 1, 1) False (plt_figure fs)"

definition ax_plot :: "nat \<Rightarrow> nat \<Rightarrow> 'v line \<Rightarrow> 'v figure list \<Rightarrow> 'v figure list" where
  "ax_plot n k l = on_axes n k (\<lambda>ax. ax\<lparr>lines := lines ax @ [l]\<rparr>)"

definition ax_draw :: "nat \<Rightarrow> nat \<Rightarrow> 'v line list \<Rightarrow> 'v figure list \<Rightarrow> 'v figure list" where
  "ax_draw n k ls = on_axes n k (\<lambda>ax. ax\<lparr>lines := lines ax @ ls\<rparr>)"

definition ax_legend :: "nat \<Rightarrow> nat \<Rightarrow> 'v figure list \<Rightarrow> 'v figure list" where
  "ax_legend n k = on_axes n k (\<lambda>ax. ax\<lparr>legend := True\<rparr>)"

definition ax_grid :: "nat \<Rightarrow> nat \<Rightarrow> 'v figure list \<Rightarrow> 'v figure list" where
  "ax_grid n k = on_axes n k (\<lambda>ax. ax\<lparr>grid := True\<rparr>)"

definition ax_set_xlabel :: "nat \<Rightarrow> nat \<Rightarrow> string \<Rightarrow> 'v figure list \<Rightarrow> 'v figure list" where
  "ax_set_xlabel n k s = on_axes n k (\<lambda>ax. ax\<lparr>xlabel := s\<rparr>)"

definition ax_set_ylabel :: "nat \<Rightarrow> nat \<Rightarrow> string \<Rightarrow> 'v figure list \<Rightarrow> 'v figure list" where
  "ax_set_ylabel n k s = on_axes n k (\<lambda>ax. ax\<lparr>ylabel := s\<rparr>)"

definition ax_set_zlabel :: "nat \<Rightarrow> nat \<Rightarrow> string \<Rightarrow> 'v figure list \<Rightarrow> 'v figure list" where
  "ax_set_zlabel n k s = on_axes n k (\<lambda>ax. ax\<lparr>zlabel := s\<rparr>)"

definition ax_set_title :: "nat \<Rightarrow> nat \<Rightarrow> string \<Rightarrow> 'v figure list \<Rightarrow> 'v figure list" where
  "ax_set_title n k s = on_axes n k (\<lambda>ax. ax\<lparr>title := s\<rparr>)"

text \<open>
  What a process can observe of a run: the open figures, the text written to standard
  output, the image files written (name and figure saved), the figures displayed by
  \<^verbatim>\<open>plt.show()\<close>, and the figures written as PNG to an in-memory buffer.
\<close>

record 'v world =
  figs :: "'v figure list"
  stdout :: "string list"
  files :: "(string \<times> 'v figure) list"
  shown :: "'v figure list"
  buffers :: "'v figure list"

definition plt_savefig :: "string \<Rightarrow> 'v world \<Rightarrow> 'v world" where
  "plt_savefig fname w =
     w\<lparr>figs := gcf (figs w), files := files w @ [(fname, last (gcf (figs w)))]\<rparr>"

definition plt_show :: "'v world \<Rightarrow> 'v world" where
  "plt_show w = w\<lparr>shown := shown w @ figs w\<rparr>"

section \<open>The terminal script, from the solution on (CansatTerminal.py, lines 105-146)\<close>

record datetime =
  year :: nat
  month :: nat
  day :: nat
  hour :: nat
  minute :: nat
  second :: nat

definition digit :: "nat \<Rightarrow> char" where
  "digit d = ''0123456789'' ! (d mod 10)"

definition zero_pad :: "nat \<Rightarrow> nat \<Rightarrow> string" where
  "zero_pad w n = map (\<lambda>k. digit (n div 10 ^ k)) (rev [0..<w])"

text \<open>\<^verbatim>\<open>strftime("%Y%m%d_%H%M%S")\<close>, for a year of four digits.\<close>

definition strftime :: "datetime \<Rightarrow> string" where
  "strftime t =
     zero_pad 4 (year t) @ zero_pad 2 (month t) @ zero_pad 2 (day t) @ ''_'' @
     zero_pad 2 (hour t) @ zero_pad 2 (minute t) @ zero_pad 2 (second t)"

definition generate_file_name_custom :: "datetime \<Rightarrow> string" where
  "generate_file_name_custom now = strftime now @ ''.png''"

text \<open>
  How the script ends: \<^verbatim>\<open>exit()\<close> was called, an exception reached the top level,
  or the last statement was executed.
\<close>

datatype status = Exited | Raised error | Finished

definition no_results_warning :: string where
  "no_results_warning =
     newline @ ''ADVERTENCIA: La simulaci'' @ o_acute @
     ''n no produjo resultados. Verifique los par'' @ a_acute @ ''metros.''"

definition access_error_msg :: "(error \<Rightarrow> string) \<Rightarrow> error \<Rightarrow> string" where
  "access_error_msg str_exc e =
     newline @ ''ERROR al acceder a los resultados de la simulaci'' @ o_acute @ ''n: '' @ str_exc e"

definition post_process_hint :: string where
  "post_process_hint =
     ''Puede que necesite llamar a flight.post_process() despu'' @ e_acute @
     ''s de crear el objeto Flight.''"

text \<open>Lines 118-127: the figure of two panels.\<close>

definition graficas_2d :: "'v ndarray \<Rightarrow> 'v figure list \<Rightarrow> error option \<times> 'v figure list" where
  "graficas_2d a fs =
     (let fs1 = plt_subplot 2 1 1 (plt_figure fs) in
      case column a 0 of Inl e \<Rightarrow> (Some e, fs1) | Inr t \<Rightarrow>
      case column a 3 of Inl e \<Rightarrow> (Some e, fs1) | Inr z \<Rightarrow>
      let fs2 = plt_subplot 2 1 2 (plt_legend (plt_plot t z ''Altitud (z)'' fs1)) in
      case column a 0 of Inl e \<Rightarrow> (Some e, fs2) | Inr t' \<Rightarrow>
      case column a 6 of Inl e \<Rightarrow> (Some e, fs2) | Inr vz \<Rightarrow>
      (None, plt_tight_layout (plt_legend (plt_plot t' vz ''Velocidad Vertical (vz)'' fs2))))"

text \<open>Lines 131-139: the figure of the trajectory.\<close>

definition grafica_3d :: "'v ndarray \<Rightarrow> 'v figure list \<Rightarrow> error option \<times> 'v figure list" where
  "grafica_3d a fs =
     (case column a 1 of Inl e \<Rightarrow> (Some e, fs) | Inr pos_x \<Rightarrow>
      case column a 2 of Inl e \<Rightarrow> (Some e, fs) | Inr pos_y \<Rightarrow>
      case column a 3 of Inl e \<Rightarrow> (Some e, fs) | Inr pos_z \<Rightarrow>
      let fig3d = next_num fs in
      (None,
       ax_grid fig3d 0
        (ax_legend fig3d 0
          (ax_plot fig3d 0 (Line3D pos_x pos_y pos_z ''Trayectoria del CanSat'')
            (fig_add_subplot fig3d (1, 1, 1) True (plt_figure fs))))))"

text \<open>
  Lines 105-146. The argument \<open>sol\<close> is what \<^verbatim>\<open>np.array(flight.solution)\<close> gives: the
  matrix, or the exception it raises.
\<close>

definition terminal_results ::
  "(error \<Rightarrow> string) \<Rightarrow> datetime \<Rightarrow> error + 'v ndarray \<Rightarrow> 'v world \<Rightarrow> status \<times> 'v world" where
  "terminal_results str_exc now sol w =
     (case sol of
        Inl e \<Rightarrow>
          (Exited, w\<lparr>stdout := stdout w @ [access_error_msg str_exc e, post_process_hint]\<rparr>)
      | Inr solution_array \<Rightarrow>
          if size_of solution_array = 0
          then (Exited, w\<lparr>stdout := stdout w @ [no_results_warning]\<rparr>)
          else
            (case graficas_2d solution_array (figs w) of
               (Some e, fs1) \<Rightarrow> (Raised e, w\<lparr>figs := fs1\<rparr>)
             | (None, fs1) \<Rightarrow>
                 (case grafica_3d solution_array fs1 of
                    (Some e, fs2) \<Rightarrow> (Raised e, w\<lparr>figs := fs2\<rparr>)
                  | (None, fs2) \<Rightarrow>
                      (Finished,
                       plt_show (plt_savefig (generate_file_name_custom now) (w\<lparr>figs := fs2\<rparr>))))))"

section \<open>The web view (flask\_app.py)\<close>

text \<open>
  What the code reads of the engine's flight object. \<open>solution\<close> is
  \<^verbatim>\<open>flight.solution\<close>: Python's \<^verbatim>\<open>None\<close>, an object without the attribute
  \<^verbatim>\<open>source_raw\<close>, or an object whose \<^verbatim>\<open>source_raw\<close> is the matrix. \<open>apogee\<close> is the
  read of \<^verbatim>\<open>flight.apogee\<close>, which may raise (AttributeError when there is no such
  attribute). \<open>z_plot\<close> is \<^verbatim>\<open>flight.z.plot\<close>: \<open>None\<close> when \<^verbatim>\<open>flight.z\<close> or its
  \<^verbatim>\<open>plot\<close> is missing, else the exception the call raises or the lines it draws on the
  axes it is given.
\<close>

datatype 'v solution = NoneSolution | NoSourceRaw | SourceRaw "'v ndarray"

record 'v flight_state =
  apogee :: "error + 'v"
  solution :: "'v solution"
  z_plot :: "(error + 'v line list) option"

text \<open>
  The flight object: its attributes as first read, and \<^verbatim>\<open>flight.post_process()\<close>:
  \<open>None\<close> when the object has no such method, else the exception it raises or the
  attributes it leaves behind.
\<close>

record 'v flight =
  before :: "'v flight_state"
  post_process :: "(error + 'v flight_state) option"

text \<open>
  The calls into the engine, in the order of lines 57-118. \<open>new_environment\<close> stands for
  lines 59-62 (\<^verbatim>\<open>rp.Environment\<close>, \<^verbatim>\<open>set_date\<close>, \<^verbatim>\<open>set_atmospheric_model\<close>):
  the exception raised, if any. \<open>new_solid_motor\<close> is \<^verbatim>\<open>rp.SolidMotor\<close> on its
  keyword arguments, with the reads of \<^verbatim>\<open>GasMotor.tag\<close> and
  \<^verbatim>\<open>GasMotor.burnOutTime\<close> of line 83: the exception raised, or the two texts printed.
  \<open>new_rocket\<close> is \<^verbatim>\<open>rp.Rocket\<close> on its evaluated keyword arguments, with
  \<^verbatim>\<open>setRailButtons\<close> and the read of \<^verbatim>\<open>can_sat.tag\<close>. \<open>new_flight\<close> is
  \<^verbatim>\<open>rp.Flight\<close>: the exception raised or the flight object. The classes themselves
  (\<^verbatim>\<open>rp.Rocket\<close> and the others) are attributes of every release of the engine;
  reading them does not raise.
\<close>

datatype val = Float real | Triple val val val | Object string

record 'v engine =
  new_environment :: "error option"
  new_solid_motor :: "solid_motor_kwargs \<Rightarrow> error + string \<times> string"
  new_rocket :: "(string \<times> val) list \<Rightarrow> error + string"
  new_flight :: "error + 'v flight"

text \<open>
  The argument expressions of the call of \<^verbatim>\<open>rp.Rocket\<close> (lines 89-103). Python
  evaluates the keyword arguments from left to right before the call; reading a name that
  is bound neither in the function nor in the module raises NameError. A keyword argument
  binds no name: \<^verbatim>\<open>inertia_Iz = ...\<close> inside the parentheses of the call is an
  argument, not an assignment.
\<close>

datatype expr =
  Name string
| Lit real
| BinMul expr expr
| BinAdd expr expr
| BinDiv expr expr
| IntPow expr nat
| Tuple3 expr expr expr

fun eval_expr :: "(string \<rightharpoonup> val) \<Rightarrow> expr \<Rightarrow> error + val" where
  "eval_expr s (Name n) = (case s n of None \<Rightarrow> Inl (NameError n) | Some v \<Rightarrow> Inr v)"
| "eval_expr s (Lit r) = Inr (Float r)"
| "eval_expr s (BinMul a b) =
     (case eval_expr s a of Inl e \<Rightarrow> Inl e | Inr x \<Rightarrow>
      case eval_expr s b of Inl e \<Rightarrow> Inl e | Inr y \<Rightarrow>
      (case (x, y) of (Float u, Float v) \<Rightarrow> Inr (Float (u * v)) | _ \<Rightarrow> Inl TypeError))"
| "eval_expr s (BinAdd a b) =
     (case eval_expr s a of Inl e \<Rightarrow> Inl e | Inr x \<Rightarrow>
      case eval_expr s b of Inl e \<Rightarrow> Inl e | Inr y \<Rightarrow>
      (case (x, y) of (Float u, Float v) \<Rightarrow> Inr (Float (u + v)) | _ \<Rightarrow> Inl TypeError))"
| "eval_expr s (BinDiv a b) =
     (case eval_expr s a of Inl e \<Rightarrow> Inl e | Inr x \<Rightarrow>
      case eval_expr s b of Inl e \<Rightarrow> Inl e | Inr y \<Rightarrow>
      (case (x, y) of
         (Float u, Float v) \<Rightarrow> if v = 0 then Inl ZeroDivisionError else Inr (Float (u / v))
       | _ \<Rightarrow> Inl TypeError))"
| "eval_expr s (IntPow a n) =
     (case eval_expr s a of Inl e \<Rightarrow> Inl e | Inr x \<Rightarrow>
      (case x of Float u \<Rightarrow> Inr (Float (u ^ n)) | _ \<Rightarrow> Inl TypeError))"
| "eval_expr s (Tuple3 a b c) =
     (case eval_expr s a of Inl e \<Rightarrow> Inl e | Inr x \<Rightarrow>
      case eval_expr s b of Inl e \<Rightarrow> Inl e | Inr y \<Rightarrow>
      case eval_expr s c of Inl e \<Rightarrow> Inl e | Inr z \<Rightarrow> Inr (Triple x y z))"

fun eval_kwargs :: "(string \<rightharpoonup> val) \<Rightarrow> (string \<times> expr) list \<Rightarrow> error + (string \<times> val) list" where
  "eval_kwargs s [] = Inr []"
| "eval_kwargs s ((k, e) # rest) =
     (case eval_expr s e of Inl x \<Rightarrow> Inl x | Inr v \<Rightarrow>
      case eval_kwargs s rest of Inl x \<Rightarrow> Inl x | Inr vs \<Rightarrow> Inr ((k, v) # vs))"

text \<open>
  The names bound when line 89 is reached: those of the module (imports, \<^verbatim>\<open>app\<close> and
  the three functions), and those the function has assigned so far (lines 38-87).
\<close>

definition module_names :: "(string \<times> val) list" where
  "module_names =
     map (\<lambda>n. (n, Object n))
       [''Flask'', ''render_template_string'', ''rp'', ''np'', ''matplotlib'', ''plt'',
        ''Axes3D'', ''datetime'', ''io'', ''base64'', ''traceback'', ''app'',
        ''fig_to_base64'', ''ejecutar_simulacion_y_graficar'', ''home'']"

definition local_names :: "(string \<times> val) list" where
  "local_names =
     [(''default_inclination'', Float default_inclination),
      (''default_heading'', Float default_heading),
      (''default_rail_length'', Float default_rail_length),
      (''default_cansat_mass'', Float default_cansat_mass),
      (''default_drag_coeff'', Float default_drag_coeff),
      (''default_burn_time'', Float default_burn_time),
      (''default_avg_thrust'', Float default_avg_thrust),
      (''default_elevation'', Float default_elevation),
      (''inclination'', Float default_inclination),
      (''heading'', Float default_heading),
      (''rail_length'', Float default_rail_length),
      (''cansat_mass'', Float default_cansat_mass),
      (''drag_coeff'', Float default_drag_coeff),
      (''burn_time'', Float default_burn_time),
      (''avg_thrust'', Float default_avg_thrust),
      (''elevation'', Float default_elevation),
      (''env'', Object ''Environment''),
      (''simulation_datetime'', Object ''datetime''),
      (''thrust_curve'', Object ''list''),
      (''GasMotor'', Object ''SolidMotor''),
      (''cansat_radius'', Float (0.066 / 2))]"

definition names_at_line_89 :: "string \<rightharpoonup> val" where
  "names_at_line_89 = map_of (local_names @ module_names)"

definition rocket_kwargs :: "(string \<times> expr) list" where
  "rocket_kwargs =
     [(''motor'', Name ''GasMotor''),
      (''radius'', Name ''cansat_radius''),
      (''mass'', Name ''cansat_mass''),
      (''inertia_Iz'',
         BinMul (BinMul (Lit 0.5) (Name ''cansat_mass'')) (IntPow (Name ''cansat_radius'') 2)),
      (''inertia_IxIy'',
         BinMul (BinMul (BinDiv (Lit 1) (Lit 12)) (Name ''cansat_mass''))
           (BinAdd (BinMul (Lit 3) (IntPow (Name ''cansat_radius'') 2)) (IntPow (Lit 0.115) 2))),
      (''inertia'', Tuple3 (Name ''inertia_IxIy'') (Name ''inertia_IxIy'') (Name ''inertia_Iz'')),
      (''distanceRocketNozzle'', Lit (- 0.0575)),
      (''distanceRocketPropellant'', Lit (- 0.0575)),
      (''powerOffDrag'', Name ''drag_coeff''),
      (''powerOnDrag'', Name ''drag_coeff'')]"

text \<open>
  The formatting and encoding functions the view calls: \<^verbatim>\<open>format(v, ".2f")\<close>,
  \<^verbatim>\<open>str(v)\<close>, \<^verbatim>\<open>str(e)\<close> of an exception, \<^verbatim>\<open>traceback.format_exc()\<close> while
  handling it, and the base64 text of the PNG that \<^verbatim>\<open>savefig\<close> writes for a figure.
\<close>

record 'v env =
  fmt_2f :: "'v \<Rightarrow> string"
  str_of :: "'v \<Rightarrow> string"
  str_exc :: "error \<Rightarrow> string"
  format_exc :: "error \<Rightarrow> string"
  png_base64 :: "'v figure \<Rightarrow> string"

definition dquote :: string where "dquote = [CHR 0x22]"
definition squote :: string where "squote = [CHR 0x27]"

definition fig_to_base64 :: "'v env \<Rightarrow> nat \<Rightarrow> 'v world \<Rightarrow> string \<times> 'v world" where
  "fig_to_base64 env fig w =
     (png_base64 env (the_figure fig (figs w)),
      w\<lparr>buffers := buffers w @ [the_figure fig (figs w)], figs := plt_close fig (figs w)\<rparr>)"

definition environment_msg :: string where
  "environment_msg = ''Configurando entorno...''"

definition environment_done_msg :: string where
  "environment_done_msg = ''Entorno configurado.''"

definition motor_msg :: string where
  "motor_msg = ''Definiendo motor...''"

definition motor_created_msg :: "string \<Rightarrow> string \<Rightarrow> string" where
  "motor_created_msg tag burn_out_time =
     ''Motor '' @ squote @ tag @ squote @ '' creado con tiempo de quemado: '' @
     burn_out_time @ ''s''"

definition cansat_msg :: string where
  "cansat_msg = ''Definiendo CanSat (Rocket)...''"

definition cansat_created_msg :: "string \<Rightarrow> string" where
  "cansat_created_msg tag = ''CanSat '' @ squote @ tag @ squote @ '' creado.''"

definition flight_msg :: string where
  "flight_msg = ''Configurando y ejecutando simulaci'' @ o_acute @ ''n de vuelo...''"

definition start_msg :: string where
  "start_msg = ''--- Iniciando simulaci'' @ o_acute @ ''n con valores por defecto ---''"

definition apogee_msg :: "'v env \<Rightarrow> 'v \<Rightarrow> string" where
  "apogee_msg env ap =
     ''Altitud M'' @ a_acute @ ''xima (Apogeo) alcanzada: '' @ fmt_2f env ap @ '' m''"

definition trying_post_process_msg :: string where
  "trying_post_process_msg =
     ''Intentando flight.post_process() expl'' @ i_acute @ ''citamente...''"

definition insufficient_msg :: string where
  "insufficient_msg =
     ''ADVERTENCIA: La simulaci'' @ o_acute @
     ''n no produjo suficientes resultados en flight.solution.''"

definition not_plottable_fragment :: "string \<Rightarrow> string" where
  "not_plottable_fragment apogee_val =
     ''<p>Error: La simulaci'' @ o_acute @
     ''n no produjo resultados graficables. Apogeo: '' @ apogee_val @ ''</p>''"

definition not_valid_fragment :: "'v env \<Rightarrow> 'v \<Rightarrow> string" where
  "not_valid_fragment env ap =
     ''<p>ADVERTENCIA: La simulaci'' @ o_acute @ ''n no produjo resultados v'' @ a_acute @
     ''lidos. Apogeo: '' @ fmt_2f env ap @ '' m</p>''"

definition plotting_msg :: string where
  "plotting_msg = ''Generando gr'' @ a_acute @ ''ficas...''"

definition completed_fragment :: "'v env \<Rightarrow> 'v \<Rightarrow> string" where
  "completed_fragment env ap =
     ''<h2>Simulaci'' @ o_acute @
     ''n Completada</h2><p>Apogeo (calculado por RocketPy): '' @ fmt_2f env ap @ '' m</p>''"

definition altitude_fragment :: "string \<Rightarrow> string" where
  "altitude_fragment img_base64_alt =
     ''<h3>Altitud vs Tiempo</h3><img src='data:image/png;base64,'' @ img_base64_alt @
     ''' alt='Altitud vs Tiempo'>''"

definition trajectory_fragment :: "string \<Rightarrow> string" where
  "trajectory_fragment img_base64_3d =
     ''<h3>Trayectoria 3D</h3><img src='data:image/png;base64,'' @ img_base64_3d @
     ''' alt='Trayectoria 3D'>''"

definition no_trajectory_fragment :: string where
  "no_trajectory_fragment =
     ''<p>No hay suficientes datos en solution_array para la trayectoria 3D (se necesitan columnas para x, y, z).</p>''"

definition finished_msg :: string where
  "finished_msg =
     ''--- Simulaci'' @ o_acute @ ''n y graficaci'' @ o_acute @ ''n finalizadas exitosamente. ---''"

definition critical_msg :: "'v env \<Rightarrow> error \<Rightarrow> string" where
  "critical_msg env e =
     ''ERROR CR'' @ I_acute @ ''TICO durante la simulaci'' @ o_acute @ ''n o graficaci'' @
     o_acute @ ''n: '' @ str_exc env e"

definition error_fragment :: "'v env \<Rightarrow> error \<Rightarrow> string" where
  "error_fragment env e =
     ''<h2>Error en la Simulaci'' @ o_acute @ ''n</h2><p>Ha ocurrido un error:</p><pre>'' @
     str_exc env e @ ''</pre><pre>'' @ format_exc env e @ ''</pre>''"

text \<open>
  The test of lines 123 and 129:
  \<^verbatim>\<open>flight.solution is None or not hasattr(flight.solution, 'source_raw') or
  flight.solution.source_raw.shape[0] <= 1\<close>.
\<close>

definition insufficient :: "'v solution \<Rightarrow> bool" where
  "insufficient s =
     (case s of NoneSolution \<Rightarrow> True | NoSourceRaw \<Rightarrow> True | SourceRaw a \<Rightarrow> nrows a \<le> 1)"

text \<open>
  Lines 130-132, reached when the second test fails: the warning is printed, and the
  fragment carries \<^verbatim>\<open>str(flight.apogee)\<close>, or \<^verbatim>\<open>No disponible\<close> when
  \<^verbatim>\<open>hasattr(flight, 'apogee')\<close> is false. \<^verbatim>\<open>hasattr\<close> turns only AttributeError
  into false; another exception leaves it.
\<close>

definition report_insufficient ::
  "'v env \<Rightarrow> 'v flight_state \<Rightarrow> string list \<Rightarrow> (error + string + 'v flight_state) \<times> string list" where
  "report_insufficient env st out =
     (case apogee st of
        Inr ap \<Rightarrow> (Inr (Inl (not_plottable_fragment (str_of env ap))), out @ [insufficient_msg])
      | Inl AttributeError \<Rightarrow>
          (Inr (Inl (not_plottable_fragment ''No disponible'')), out @ [insufficient_msg])
      | Inl e \<Rightarrow> (Inl e, out @ [insufficient_msg]))"

text \<open>
  Lines 122-132. The result is an exception, the fragment returned early, or the
  attributes of the flight with which the function goes on.
\<close>

definition check_solution ::
  "'v env \<Rightarrow> 'v flight \<Rightarrow> string list \<Rightarrow> (error + string + 'v flight_state) \<times> string list" where
  "check_solution env fl out =
     (if insufficient (solution (before fl)) then
        (case post_process fl of
           None \<Rightarrow> report_insufficient env (before fl) out
         | Some r \<Rightarrow>
             (case r of
                Inl e \<Rightarrow> (Inl e, out @ [trying_post_process_msg])
              | Inr st \<Rightarrow>
                  if insufficient (solution st)
                  then report_insufficient env st (out @ [trying_post_process_msg])
                  else (Inr (Inr st), out @ [trying_post_process_msg])))
      else (Inr (Inr (before fl)), out))"

text \<open>
  Lines 145-160: the altitude figure. The engine's own plot of \<^verbatim>\<open>flight.z\<close> is used
  when there is one; otherwise column 3 is plotted against column 0.
\<close>

definition draw_altitude ::
  "'v flight_state \<Rightarrow> 'v ndarray \<Rightarrow> nat \<Rightarrow> 'v figure list \<Rightarrow> error + 'v figure list" where
  "draw_altitude st solution_array fig_alt fs =
     (case z_plot st of
        Some r \<Rightarrow> (case r of Inl e \<Rightarrow> Inl e | Inr ls \<Rightarrow> Inr (ax_draw fig_alt 0 ls fs))
      | None \<Rightarrow>
          (case column solution_array 0 of Inl e \<Rightarrow> Inl e | Inr t \<Rightarrow>
           case column solution_array 3 of Inl e \<Rightarrow> Inl e | Inr z \<Rightarrow>
           Inr (ax_plot fig_alt 0 (Line2D t z ''Altitud (z)'') fs)))"

definition render_altitude ::
  "'v env \<Rightarrow> 'v flight_state \<Rightarrow> 'v ndarray \<Rightarrow> 'v world \<Rightarrow> (error + string) \<times> 'v world" where
  "render_altitude env st solution_array w =
     (let fig_alt = next_num (figs w) in
      case draw_altitude st solution_array fig_alt (plt_subplots (figs w)) of
        Inl e \<Rightarrow> (Inl e, w\<lparr>figs := plt_subplots (figs w)\<rparr>)
      | Inr fs \<Rightarrow>
          (case fig_to_base64 env fig_alt
                  (w\<lparr>figs :=
                      ax_grid fig_alt 0
                       (ax_legend fig_alt 0
                         (ax_set_title fig_alt 0 ''Altitud del CanSat vs. Tiempo''
                           (ax_set_ylabel fig_alt 0 ''Altitud (m)''
                             (ax_set_xlabel fig_alt 0 ''Tiempo (s)'' fs))))\<rparr>) of
             (img_base64_alt, w') \<Rightarrow> (Inr (altitude_fragment img_base64_alt), w')))"

text \<open>
  Lines 162-181: the trajectory figure, drawn only when the matrix has more than three
  columns.
\<close>

definition draw_trajectory :: "'v ndarray \<Rightarrow> 'v figure list \<Rightarrow> error + 'v figure list" where
  "draw_trajectory solution_array fs =
     (case column solution_array 1 of Inl e \<Rightarrow> Inl e | Inr x_flight \<Rightarrow>
      case column solution_array 2 of Inl e \<Rightarrow> Inl e | Inr y_flight \<Rightarrow>
      case column solution_array 3 of Inl e \<Rightarrow> Inl e | Inr z_flight \<Rightarrow>
      let fig3d = next_num fs in
      Inr (plt_tight_layout
            (ax_legend fig3d 0
              (ax_set_title fig3d 0 ''Trayectoria 3D del CanSat''
                (ax_set_zlabel fig3d 0 (''Posici'' @ o_acute @ ''n Z (Altitud) (m)'')
                  (ax_set_ylabel fig3d 0 (''Posici'' @ o_acute @ ''n Y (m)'')
                    (ax_set_xlabel fig3d 0 (''Posici'' @ o_acute @ ''n X (m)'')
                      (ax_plot fig3d 0
                        (Line3D x_flight y_flight z_flight ''Trayectoria del CanSat'')
                        (fig_add_subplot fig3d (1, 1, 1) True (plt_figure fs))))))))))"

definition render_trajectory ::
  "'v env \<Rightarrow> 'v ndarray \<Rightarrow> 'v world \<Rightarrow> (error + string) \<times> 'v world" where
  "render_trajectory env solution_array w =
     (if 3 < ncols solution_array then
        (case draw_trajectory solution_array (figs w) of
           Inl e \<Rightarrow> (Inl e, w)
         | Inr fs \<Rightarrow>
             (case fig_to_base64 env (next_num (figs w)) (w\<lparr>figs := fs\<rparr>) of
                (img_base64_3d, w') \<Rightarrow> (Inr (trajectory_fragment img_base64_3d), w')))
      else (Inr no_trajectory_fragment, w))"

text \<open>
  Lines 134-184. \<^verbatim>\<open>flight.solution.source_raw\<close> raises AttributeError on an object
  without that attribute.
\<close>

definition render :: "'v env \<Rightarrow> 'v flight_state \<Rightarrow> 'v world \<Rightarrow> (error + string) \<times> 'v world" where
  "render env st w =
     (case solution st of
        SourceRaw solution_array \<Rightarrow>
          if size_of solution_array = 0 \<or> nrows solution_array \<le> 1 then
            (case apogee st of
               Inl e \<Rightarrow> (Inl e, w)
             | Inr ap \<Rightarrow> (Inr (not_valid_fragment env ap), w))
          else
            (case apogee st of
               Inl e \<Rightarrow> (Inl e, w\<lparr>stdout := stdout w @ [plotting_msg]\<rparr>)
             | Inr ap \<Rightarrow>
                 (case render_altitude env st solution_array
                         (w\<lparr>stdout := stdout w @ [plotting_msg]\<rparr>) of
                    (Inl e, w2) \<Rightarrow> (Inl e, w2)
                  | (Inr img_alt, w2) \<Rightarrow>
                      (case render_trajectory env solution_array w2 of
                         (Inl e, w3) \<Rightarrow> (Inl e, w3)
                       | (Inr img_3d, w3) \<Rightarrow>
                           (Inr (completed_fragment env ap @ img_alt @ img_3d),
                            w3\<lparr>stdout := stdout w3 @ [finished_msg]\<rparr>))))
      | _ \<Rightarrow> (Inl AttributeError, w))"

text \<open>Lines 120-184: what the function does with the flight object.\<close>

definition after_flight :: "'v env \<Rightarrow> 'v flight \<Rightarrow> 'v world \<Rightarrow> (error + string) \<times> 'v world" where
  "after_flight env fl w =
     (case apogee (before fl) of
        Inl e \<Rightarrow> (Inl e, w)
      | Inr ap \<Rightarrow>
          (case check_solution env fl (stdout w @ [apogee_msg env ap]) of
             (Inl e, out) \<Rightarrow> (Inl e, w\<lparr>stdout := out\<rparr>)
           | (Inr (Inl fragment), out) \<Rightarrow> (Inr fragment, w\<lparr>stdout := out\<rparr>)
           | (Inr (Inr st), out) \<Rightarrow> render env st (w\<lparr>stdout := out\<rparr>)))"

text \<open>
  The \<^verbatim>\<open>try\<close> block of \<^verbatim>\<open>ejecutar_simulacion_y_graficar\<close>, with line 36 before it.
  The parameters are the compiled-in defaults. Each step either raises, which ends the
  block, or lets the next one run.
\<close>

definition ejecutar_body :: "'v env \<Rightarrow> 'v engine \<Rightarrow> 'v world \<Rightarrow> (error + string) \<times> 'v world" where
  "ejecutar_body env eng w =
     (let w0 = w\<lparr>stdout := stdout w @ [start_msg, environment_msg]\<rparr> in
      case new_environment eng of
        Some e \<Rightarrow> (Inl e, w0)
      | None \<Rightarrow>
     (let w1 = w0\<lparr>stdout := stdout w0 @ [environment_done_msg, motor_msg]\<rparr> in
      case new_solid_motor eng (GasMotor default_avg_thrust default_burn_time) of
        Inl e \<Rightarrow> (Inl e, w1)
      | Inr (tag, burn_out_time) \<Rightarrow>
     (let w2 = w1\<lparr>stdout := stdout w1 @ [motor_created_msg tag burn_out_time, cansat_msg]\<rparr> in
      case eval_kwargs names_at_line_89 rocket_kwargs of
        Inl e \<Rightarrow> (Inl e, w2)
      | Inr kwargs \<Rightarrow>
     (case new_rocket eng kwargs of
        Inl e \<Rightarrow> (Inl e, w2)
      | Inr can_sat_tag \<Rightarrow>
     (let w3 = w2\<lparr>stdout := stdout w2 @ [cansat_created_msg can_sat_tag, flight_msg]\<rparr> in
      case new_flight eng of
        Inl e \<Rightarrow> (Inl e, w3)
      | Inr fl \<Rightarrow> after_flight env fl w3)))))"

text \<open>The whole function: \<^verbatim>\<open>except Exception\<close> turns any exception into a fragment.\<close>

definition ejecutar_simulacion_y_graficar :: "'v env \<Rightarrow> 'v engine \<Rightarrow> 'v world \<Rightarrow> string \<times> 'v world" where
  "ejecutar_simulacion_y_graficar env eng w =
     (case ejecutar_body env eng w of
        (Inr fragment, w') \<Rightarrow> (fragment, w')
      | (Inl e, w') \<Rightarrow>
          (error_fragment env e,
           w'\<lparr>stdout := stdout w' @ [critical_msg env e, format_exc env e]\<rparr>))"

definition template_head :: string where
  "template_head =
     concat
     [newline,
      ''    <!DOCTYPE html>'' @ newline,
      ''    <html lang='' @ dquote @ ''es'' @ dquote @ ''>'' @ newline,
      ''    <head>'' @ newline,
      ''        <meta charset='' @ dquote @ ''UTF-8'' @ dquote @ ''>'' @ newline,
      ''        <meta name='' @ dquote @ ''viewport'' @ dquote @ '' content='' @ dquote @ ''width=device-width, initial-scale=1.0'' @ dquote @ ''>'' @ newline,
      ''        <title>Simulaci'' @ o_acute @ ''n CanSat Sencilla con Flask</title>'' @ newline,
      ''        <style>'' @ newline,
      ''            body { font-family: Arial, sans-serif; margin: 20px; line-height: 1.6; }'' @ newline,
      ''            h1, h2, h3 { color: #333; }'' @ newline,
      ''            img { '' @ newline,
      ''                border: 1px solid #ddd; '' @ newline,
      ''                margin-top: 10px; '' @ newline,
      ''                margin-bottom: 20px; '' @ newline,
      ''                max-width: 100%; '' @ newline,
      ''                height: auto; '' @ newline,
      ''                display: block;'' @ newline,
      ''            }'' @ newline,
      ''            p { color: #555; }'' @ newline,
      ''            pre { '' @ newline,
      ''                background-color: #f4f4f4; '' @ newline,
      ''                padding: 15px; '' @ newline,
      ''                border: 1px solid #ccc; '' @ newline,
      ''                overflow-x: auto; '' @ newline,
      ''                white-space: pre-wrap; /* Permite que el texto se ajuste */'' @ newline,
      ''                word-wrap: break-word; /* Asegura que palabras largas no desborden */'' @ newline,
      ''            }'' @ newline,
      ''            .container { max-width: 900px; margin: auto; padding: 20px; }'' @ newline,
      ''        </style>'' @ newline,
      ''    </head>'' @ newline,
      ''    <body>'' @ newline,
      ''        <div class='' @ dquote @ ''container'' @ dquote @ ''>'' @ newline,
      ''            <h1>Resultado de la Simulaci'' @ o_acute @ ''n del CanSat</h1>'' @ newline,
      ''            '']"

definition template_tail :: string where
  "template_tail =
     concat
     [newline,
      ''        </div>'' @ newline,
      ''    </body>'' @ newline,
      ''    </html>'' @ newline,
      ''    '']"

definition home :: "'v env \<Rightarrow> 'v engine \<Rightarrow> 'v world \<Rightarrow> string \<times> 'v world" where
  "home env eng w =
     (case ejecutar_simulacion_y_graficar env eng w of
        (resultado_html, w') \<Rightarrow> (template_head @ resultado_html @ template_tail, w'))"

text \<open>
  The framework's answer to \<^verbatim>\<open>GET /\<close>: a view that returns text is answered with
  status 200 and that text as the body.
\<close>

datatype response = Response nat string

definition get_root :: "'v env \<Rightarrow> 'v engine \<Rightarrow> 'v world \<Rightarrow> response \<times> 'v world" where
  "get_root env eng w = (case home env eng w of (body, w') \<Rightarrow> (Response 200 body, w'))"

section \<open>The figures to be expected\<close>

text \<open>
  The figures the terminal script is meant to produce, written out as values, for
  comparison with what the plotting calls build. \<open>col_values a j\<close> is column \<open>j\<close> of
  the matrix, row by row.
\<close>

definition col_values :: "'v ndarray \<Rightarrow> nat \<Rightarrow> 'v list" where
  "col_values a j = map (\<lambda>i. cell a i j) [0..<nrows a]"

definition altitude_panel :: "'v ndarray \<Rightarrow> 'v axes" where
  "altitude_panel a =
     \<lparr> geometry = (2, 1, 1), projection3d = False,
       lines = [Line2D (col_values a 0) (col_values a 3) ''Altitud (z)''],
       legend = True, grid = False, xlabel = [], ylabel = [], zlabel = [], title = [] \<rparr>"

definition velocity_panel :: "'v ndarray \<Rightarrow> 'v axes" where
  "velocity_panel a =
     \<lparr> geometry = (2, 1, 2), projection3d = False,
       lines = [Line2D (col_values a 0) (col_values a 6) ''Velocidad Vertical (vz)''],
       legend = True, grid = False, xlabel = [], ylabel = [], zlabel = [], title = [] \<rparr>"

definition time_series_figure :: "nat \<Rightarrow> 'v ndarray \<Rightarrow> 'v figure" where
  "time_series_figure n a =
     \<lparr> number = n, panels = [altitude_panel a, velocity_panel a], tight = True \<rparr>"

definition trajectory_figure :: "nat \<Rightarrow> 'v ndarray \<Rightarrow> 'v figure" where
  "trajectory_figure n a =
     \<lparr> number = n,
       panels =
         [\<lparr> geometry = (1, 1, 1), projection3d = True,
            lines = [Line3D (col_values a 1) (col_values a 2) (col_values a 3)
                       ''Trayectoria del CanSat''],
            legend = True, grid = True, xlabel = [], ylabel = [], zlabel = [], title = [] \<rparr>],
       tight = False \<rparr>"

section \<open>Sample inputs\<close>

text \<open>
  Concrete inputs for the evaluations below: a matrix of \<open>r\<close> rows and \<open>c\<close> columns whose
  cell \<open>(i, j)\<close> holds \<open>10 i + j\<close>, fixed texts for the formatting functions, an engine
  whose first call raises, an engine that refuses the keyword arguments of the motor, and
  an engine whose calls all succeed and whose flight object would be the one given.
\<close>

definition sample_array :: "nat \<Rightarrow> nat \<Rightarrow> real ndarray" where
  "sample_array r c = \<lparr> nrows = r, ncols = c, cell = (\<lambda>i j. real (10 * i + j)) \<rparr>"

definition sample_env :: "real env" where
  "sample_env =
     \<lparr> fmt_2f = (\<lambda>v. ''100.00''),
       str_of = (\<lambda>v. ''100.0''),
       str_exc =
         (\<lambda>e. case e of
                NameError n \<Rightarrow> ''name '' @ squote @ n @ squote @ '' is not defined''
              | OtherError s \<Rightarrow> s
              | IndexError \<Rightarrow> ''index out of bounds''
              | TypeError \<Rightarrow> ''unexpected keyword argument''
              | _ \<Rightarrow> ''error''),
       format_exc = (\<lambda>e. ''Traceback (most recent call last): ...''),
       png_base64 = (\<lambda>fig. ''iVBORw0KGgo='') \<rparr>"

definition sample_flight :: "real ndarray \<Rightarrow> (error + real line list) option \<Rightarrow> real flight" where
  "sample_flight a zp =
     \<lparr> before = \<lparr> apogee = Inr 100, solution = SourceRaw a, z_plot = zp \<rparr>,
       post_process = None \<rparr>"

definition engine_plot :: "(error + real line list) option" where
  "engine_plot = Some (Inr [Line2D [0, 1] [0, 5] ''Altitud (z vs t)''])"

definition sample_engine :: "real flight \<Rightarrow> real engine" where
  "sample_engine fl =
     \<lparr> new_environment = None,
       new_solid_motor = (\<lambda>kw. Inr (''SolidMotor'', ''2.0'')),
       new_rocket = (\<lambda>kw. Inr ''Rocket''),
       new_flight = Inr fl \<rparr>"

definition failing_engine :: "real engine" where
  "failing_engine =
     \<lparr> new_environment = Some (OtherError ''engine failure''),
       new_solid_motor = (\<lambda>kw. Inr (''SolidMotor'', ''2.0'')),
       new_rocket = (\<lambda>kw. Inr ''Rocket''),
       new_flight = Inl (OtherError ''engine failure'') \<rparr>"

definition failing_motor_engine :: "real engine" where
  "failing_motor_engine =
     \<lparr> new_environment = None,
       new_solid_motor = (\<lambda>kw. Inl TypeError),
       new_rocket = (\<lambda>kw. Inr ''Rocket''),
       new_flight = Inl TypeError \<rparr>"

definition empty_world :: "real world" where
  "empty_world = \<lparr> figs = [], stdout = [], files = [], shown = [], buffers = [] \<rparr>"

definition sample_now :: datetime where
  "sample_now = \<lparr> year = 2025, month = 5, day = 3, hour = 22, minute = 52, second = 0 \<rparr>"

section \<open>Parameter intake: the loop\<close>

lemma read_float_ValueError:
  "read_float pyfloat d line = Inl ValueError \<longleftrightarrow> invalid_line pyfloat line"
  by (auto simp: read_float_def invalid_line_def split: option.splits)

lemma get_float_input_invalid:
  assumes "invalid_line pyfloat (inp pos)"
  shows "get_float_input pyfloat str inp prompt d pos out =
         get_float_input pyfloat str inp prompt d (Suc pos)
           (out @ [prompt_text str prompt d, invalid_entry_msg])"
proof -
  have "read_float pyfloat d (inp pos) = Inl ValueError"
    using assms by (simp add: read_float_ValueError)
  then show ?thesis
    by (subst get_float_input.simps) simp
qed

lemma get_float_input_settled:
  assumes "\<not> invalid_line pyfloat (inp pos)"
  shows "get_float_input pyfloat str inp prompt d pos out =
         Some (read_float pyfloat d (inp pos),
               (case inp pos of None \<Rightarrow> pos | Some _ \<Rightarrow> Suc pos),
               out @ [prompt_text str prompt d])"
proof (cases "inp pos")
  case None
  then show ?thesis
    by (subst get_float_input.simps) (simp add: read_float_def)
next
  case (Some s)
  with assms show ?thesis
    by (subst get_float_input.simps)
       (auto simp: read_float_def invalid_line_def split: option.splits)
qed

lemma reprompts_Suc:
  "[prompt_text str prompt d, invalid_entry_msg] @ reprompts str prompt d n =
   reprompts str prompt d (Suc n)"
  by (simp add: reprompts_def)

lemma get_float_input_skip:
  assumes "\<forall>i<n. invalid_line pyfloat (inp (pos + i))"
  shows "get_float_input pyfloat str inp prompt d pos out =
         get_float_input pyfloat str inp prompt d (pos + n) (out @ reprompts str prompt d n)"
  using assms
proof (induction n arbitrary: pos out)
  case 0
  then show ?case by (simp add: reprompts_def)
next
  case (Suc n)
  have first: "invalid_line pyfloat (inp pos)"
    using Suc.prems [rule_format, of 0] by simp
  have rest: "\<forall>i<n. invalid_line pyfloat (inp (Suc pos + i))"
  proof (intro allI impI)
    fix i assume "i < n"
    then show "invalid_line pyfloat (inp (Suc pos + i))"
      using Suc.prems [rule_format, of "Suc i"] by simp
  qed
  show ?case
    using get_float_input_invalid [where pyfloat = pyfloat and inp = inp and pos = pos
            and str = str and prompt = prompt and d = d and out = out] first
          Suc.IH [where pos = "Suc pos"
            and out = "out @ [prompt_text str prompt d, invalid_entry_msg]"] rest
    by (simp add: reprompts_Suc [symmetric] del: replicate_Suc)
qed

lemma get_float_input_returns_only:
  assumes ret: "get_float_input pyfloat str inp prompt d pos out = Some y"
  shows "\<exists>n. (\<forall>i<n. invalid_line pyfloat (inp (pos + i))) \<and>
             \<not> invalid_line pyfloat (inp (pos + n)) \<and>
             y = (read_float pyfloat d (inp (pos + n)),
                  (case inp (pos + n) of None \<Rightarrow> pos + n | Some _ \<Rightarrow> Suc (pos + n)),
                  out @ reprompts str prompt d n @ [prompt_text str prompt d])"
proof (rule get_float_input.raw_induct
    [where P = "\<lambda>pyfloat str inp prompt d pos out y.
       \<exists>n. (\<forall>i<n. invalid_line pyfloat (inp (pos + i))) \<and>
             \<not> invalid_line pyfloat (inp (pos + n)) \<and>
             y = (read_float pyfloat d (inp (pos + n)),
                  (case inp (pos + n) of None \<Rightarrow> pos + n | Some _ \<Rightarrow> Suc (pos + n)),
                  out @ reprompts str prompt d n @ [prompt_text str prompt d])", OF _ ret])
  fix gfi :: "(string \<Rightarrow> 'a option) \<Rightarrow> ('a \<Rightarrow> string) \<Rightarrow> stdin \<Rightarrow> string \<Rightarrow> 'a \<Rightarrow> nat \<Rightarrow> string list
     \<Rightarrow> ((error + 'a) \<times> nat \<times> string list) option"
    and pyfloat str inp prompt d pos out y
  assume IH: "\<And>pyfloat str inp prompt d pos out y. gfi pyfloat str inp prompt d pos out = Some y \<Longrightarrow>
       \<exists>n. (\<forall>i<n. invalid_line pyfloat (inp (pos + i))) \<and>
             \<not> invalid_line pyfloat (inp (pos + n)) \<and>
             y = (read_float pyfloat d (inp (pos + n)),
                  (case inp (pos + n) of None \<Rightarrow> pos + n | Some _ \<Rightarrow> Suc (pos + n)),
                  out @ reprompts str prompt d n @ [prompt_text str prompt d])"
  assume body: "(case read_float pyfloat d (inp pos) of
        Inr v \<Rightarrow> Some (Inr v, Suc pos, out @ [prompt_text str prompt d])
      | Inl ValueError \<Rightarrow>
          gfi pyfloat str inp prompt d (Suc pos)
            (out @ [prompt_text str prompt d, invalid_entry_msg])
      | Inl e \<Rightarrow> Some (Inl e, pos, out @ [prompt_text str prompt d])) = Some y"
  show "\<exists>n. (\<forall>i<n. invalid_line pyfloat (inp (pos + i))) \<and>
             \<not> invalid_line pyfloat (inp (pos + n)) \<and>
             y = (read_float pyfloat d (inp (pos + n)),
                  (case inp (pos + n) of None \<Rightarrow> pos + n | Some _ \<Rightarrow> Suc (pos + n)),
                  out @ reprompts str prompt d n @ [prompt_text str prompt d])"
  proof (cases "invalid_line pyfloat (inp pos)")
    case False
    have "y = (read_float pyfloat d (inp pos),
               (case inp pos of None \<Rightarrow> pos | Some _ \<Rightarrow> Suc pos),
               out @ [prompt_text str prompt d])"
    proof (cases "read_float pyfloat d (inp pos)")
      case (Inr v)
      then have "inp pos \<noteq> None" by (auto simp: read_float_def split: option.splits)
      with Inr body show ?thesis by auto
    next
      case (Inl e)
      with False have ne: "e \<noteq> ValueError"
        using read_float_ValueError [of pyfloat d "inp pos"] by auto
      from Inl have "inp pos = None"
        using ne by (auto simp: read_float_def split: option.splits if_splits)
      with Inl ne body show ?thesis by (cases e) auto
    qed
    with False show ?thesis
      by (intro exI [of _ 0]) (simp add: reprompts_def split: option.splits)
  next
    case True
    then have "read_float pyfloat d (inp pos) = Inl ValueError"
      by (simp add: read_float_ValueError)
    with body have "gfi pyfloat str inp prompt d (Suc pos)
        (out @ [prompt_text str prompt d, invalid_entry_msg]) = Some y"
      by simp
    from IH [OF this] show ?thesis
    proof (elim exE conjE)
      fix n
      assume a: "\<forall>i<n. invalid_line pyfloat (inp (Suc pos + i))"
        and b: "\<not> invalid_line pyfloat (inp (Suc pos + n))"
        and c: "y = (read_float pyfloat d (inp (Suc pos + n)),
               (case inp (Suc pos + n) of None \<Rightarrow> Suc pos + n | Some _ \<Rightarrow> Suc (Suc pos + n)),
               (out @ [prompt_text str prompt d, invalid_entry_msg]) @
                 reprompts str prompt d n @ [prompt_text str prompt d])"
      have a': "\<forall>i<Suc n. invalid_line pyfloat (inp (pos + i))"
      proof (intro allI impI)
        fix i assume "i < Suc n"
        then show "invalid_line pyfloat (inp (pos + i))"
          using True a [rule_format, of "i - 1"] by (cases i) simp_all
      qed
      have out: "(out @ [prompt_text str prompt d, invalid_entry_msg]) @
                   reprompts str prompt d n @ [prompt_text str prompt d]
             = out @ reprompts str prompt d (Suc n) @ [prompt_text str prompt d]"
        by (simp add: reprompts_def)
      from b have b': "\<not> invalid_line pyfloat (inp (pos + Suc n))" by simp
      from c have c': "y = (read_float pyfloat d (inp (pos + Suc n)),
               (case inp (pos + Suc n) of None \<Rightarrow> pos + Suc n | Some _ \<Rightarrow> Suc (pos + Suc n)),
               out @ reprompts str prompt d (Suc n) @ [prompt_text str prompt d])"
        using out by (simp split: option.splits)
      from a' b' c' show ?thesis by (intro exI [of _ "Suc n"] conjI)
    qed
  qed
qed

lemma get_float_input_forever:
  assumes "\<forall>i. invalid_line pyfloat (inp (pos + i))"
  shows "get_float_input pyfloat str inp prompt d pos out = None"
proof (cases "get_float_input pyfloat str inp prompt d pos out")
  case None
  then show ?thesis .
next
  case (Some y)
  from get_float_input_returns_only [OF this] assms show ?thesis by blast
qed

lemma invalid_line_abc: "invalid_line float_sample (Some ''abc'')"
  by (simp add: invalid_line_def float_sample_def)

lemma invalid_line_x: "invalid_line float_sample (Some ''x'')"
  by (simp add: invalid_line_def float_sample_def)

text \<open>
  Claim C1 as stated does not hold: an entry that \<^verbatim>\<open>float()\<close> rejects does not make the
  intake return the displayed default. With the lines \<^verbatim>\<open>abc\<close> and \<^verbatim>\<open>5\<close> on
  standard input and the default 0.3, the diagnostic is printed, the prompt is shown again
  and 5 is returned.
\<close>

theorem get_float_input_invalid_not_default:
  "float_sample ''abc'' = None \<and> ''abc'' \<noteq> [] \<and>
   get_float_input float_sample str_sample (stdin_of [''abc'', ''5''])
     ''Masa seca del CanSat (kg)'' default_cansat_mass 0 [] =
   Some (Inr 5, 2,
         [''Masa seca del CanSat (kg) [0.3]: '', invalid_entry_msg,
          ''Masa seca del CanSat (kg) [0.3]: '']) \<and>
   (5 :: real) \<noteq> default_cansat_mass"
proof -
  have 1: "invalid_line float_sample (stdin_of [''abc'', ''5''] 0)"
    by (simp add: stdin_of_def invalid_line_abc)
  have 2: "\<not> invalid_line float_sample (stdin_of [''abc'', ''5''] (Suc 0))"
    by (simp add: stdin_of_def invalid_line_def float_sample_def)
  note step1 = get_float_input_invalid
    [where pyfloat = float_sample and inp = "stdin_of [''abc'', ''5'']" and pos = 0, OF 1]
  note step2 = get_float_input_settled
    [where pyfloat = float_sample and inp = "stdin_of [''abc'', ''5'']" and pos = "Suc 0", OF 2]
  show ?thesis
    by (simp add: step1 step2)
       (simp add: float_sample_def stdin_of_def read_float_def prompt_text_def
          str_sample_def default_cansat_mass_def)
qed

text \<open>
  Claim C1, amended: when a line is entered at the prompt, a line that \<^verbatim>\<open>float()\<close>
  accepts makes the intake return the parsed float, and the empty line makes it return the
  displayed default; a line that is neither does not return the default: the diagnostic is
  printed and the intake continues with the next prompt, whose entry decides the result.
\<close>

theorem get_float_input_first_line:
  assumes "inp pos = Some s"
  shows "get_float_input pyfloat str inp prompt d pos out =
    (if s = [] then Some (Inr d, Suc pos, out @ [prompt_text str prompt d])
     else case pyfloat s of
            Some v \<Rightarrow> Some (Inr v, Suc pos, out @ [prompt_text str prompt d])
          | None \<Rightarrow>
              get_float_input pyfloat str inp prompt d (Suc pos)
                (out @ [prompt_text str prompt d, invalid_entry_msg]))"
  using assms
  by (subst get_float_input.simps) (simp add: read_float_def split: option.splits)

theorem get_float_input_first_line_witness:
  "stdin_of [''''] 0 = Some [] \<and>
   get_float_input float_sample str_sample (stdin_of ['''']) ''Masa seca del CanSat (kg)''
     default_cansat_mass 0 [] =
   Some (Inr default_cansat_mass, 1, [''Masa seca del CanSat (kg) [0.3]: '']) \<and>
   stdin_of [''2.5''] 0 = Some ''2.5'' \<and>
   get_float_input float_sample str_sample (stdin_of [''2.5'']) ''Masa seca del CanSat (kg)''
     default_cansat_mass 0 [] =
   Some (Inr 2.5, 1, [''Masa seca del CanSat (kg) [0.3]: '']) \<and>
   stdin_of [''abc'', ''''] 0 = Some ''abc'' \<and>
   get_float_input float_sample str_sample (stdin_of [''abc'', '''']) ''Masa seca del CanSat (kg)''
     default_cansat_mass 0 [] =
   get_float_input float_sample str_sample (stdin_of [''abc'', '''']) ''Masa seca del CanSat (kg)''
     default_cansat_mass 1 [''Masa seca del CanSat (kg) [0.3]: '', invalid_entry_msg]"
proof -
  have a: "stdin_of [''''] 0 = Some []" by (simp add: stdin_of_def)
  have b: "stdin_of [''2.5''] 0 = Some ''2.5''" by (simp add: stdin_of_def)
  have c: "stdin_of [''abc'', ''''] 0 = Some ''abc''" by (simp add: stdin_of_def)
  have p: "prompt_text str_sample ''Masa seca del CanSat (kg)'' default_cansat_mass =
           ''Masa seca del CanSat (kg) [0.3]: ''"
    by (simp add: prompt_text_def str_sample_def default_cansat_mass_def)
  show ?thesis
    using get_float_input_first_line [where inp = "stdin_of ['''']" and pos = 0
            and pyfloat = float_sample and str = str_sample
            and prompt = "''Masa seca del CanSat (kg)''" and d = default_cansat_mass
            and out = "[]", OF a]
          get_float_input_first_line [where inp = "stdin_of [''2.5'']" and pos = 0
            and pyfloat = float_sample and str = str_sample
            and prompt = "''Masa seca del CanSat (kg)''" and d = default_cansat_mass
            and out = "[]", OF b]
          get_float_input_first_line [where inp = "stdin_of [''abc'', '''']" and pos = 0
            and pyfloat = float_sample and str = str_sample
            and prompt = "''Masa seca del CanSat (kg)''" and d = default_cansat_mass
            and out = "[]", OF c]
    by (simp add: a b c p float_sample_def)
qed

text \<open>
  Claim C2: after any number \<open>n\<close> of rejected entries the intake has printed the
  prompt and the diagnostic \<open>n\<close> times and is prompting again; it returns as soon as an
  entry is empty (the default) or parses (the parsed float); on entries that are rejected
  for ever it never returns; and whenever it does return, every earlier entry was
  rejected, the result is never the ValueError of a rejected entry, and a value returned
  is the default of an empty entry or the float of an entry that parses. The only
  exception that leaves the function is the end of input.
\<close>

theorem get_float_input_reprompts_until_valid:
  "((\<forall>i<n. invalid_line pyfloat (inp (pos + i))) \<longrightarrow>
      get_float_input pyfloat str inp prompt d pos out =
      get_float_input pyfloat str inp prompt d (pos + n) (out @ reprompts str prompt d n)) \<and>
   ((\<forall>i<n. invalid_line pyfloat (inp (pos + i))) \<and> inp (pos + n) = Some s \<and>
      (s = [] \<and> v = d \<or> s \<noteq> [] \<and> pyfloat s = Some v) \<longrightarrow>
      get_float_input pyfloat str inp prompt d pos out =
      Some (Inr v, pos + n + 1, out @ reprompts str prompt d n @ [prompt_text str prompt d])) \<and>
   ((\<forall>i. invalid_line pyfloat (inp (pos + i))) \<longrightarrow>
      get_float_input pyfloat str inp prompt d pos out = None) \<and>
   (\<forall>r pos' out'.
      get_float_input pyfloat str inp prompt d pos out = Some (r, pos', out') \<longrightarrow>
      r \<noteq> Inl ValueError \<and>
      (\<exists>k. (\<forall>i<k. invalid_line pyfloat (inp (pos + i))) \<and>
           out' = out @ reprompts str prompt d k @ [prompt_text str prompt d] \<and>
           (case r of
              Inr u \<Rightarrow>
                pos' = pos + k + 1 \<and>
                (\<exists>t. inp (pos + k) = Some t \<and> (if t = [] then u = d else pyfloat t = Some u))
            | Inl e \<Rightarrow> e = EOFError \<and> pos' = pos + k \<and> inp (pos + k) = None)))"
proof (intro conjI impI allI)
  assume "\<forall>i<n. invalid_line pyfloat (inp (pos + i))"
  then show "get_float_input pyfloat str inp prompt d pos out =
      get_float_input pyfloat str inp prompt d (pos + n) (out @ reprompts str prompt d n)"
    by (rule get_float_input_skip)
next
  assume a: "(\<forall>i<n. invalid_line pyfloat (inp (pos + i))) \<and> inp (pos + n) = Some s \<and>
      (s = [] \<and> v = d \<or> s \<noteq> [] \<and> pyfloat s = Some v)"
  then have ok: "\<not> invalid_line pyfloat (inp (pos + n))"
    by (auto simp: invalid_line_def)
  from a have rf: "read_float pyfloat d (inp (pos + n)) = Inr v"
    by (auto simp: read_float_def)
  from a have skip: "get_float_input pyfloat str inp prompt d pos out =
      get_float_input pyfloat str inp prompt d (pos + n) (out @ reprompts str prompt d n)"
    by (intro get_float_input_skip) simp
  show "get_float_input pyfloat str inp prompt d pos out =
      Some (Inr v, pos + n + 1, out @ reprompts str prompt d n @ [prompt_text str prompt d])"
    using a rf
    by (simp add: skip get_float_input_settled
          [where pyfloat = pyfloat and inp = inp and pos = "pos + n", OF ok])
next
  assume "\<forall>i. invalid_line pyfloat (inp (pos + i))"
  then show "get_float_input pyfloat str inp prompt d pos out = None"
    by (rule get_float_input_forever)
next
  fix r pos' out'
  assume ret: "get_float_input pyfloat str inp prompt d pos out = Some (r, pos', out')"
  from get_float_input_returns_only [OF ret] obtain k where
    inv: "\<forall>i<k. invalid_line pyfloat (inp (pos + i))"
    and ok: "\<not> invalid_line pyfloat (inp (pos + k))"
    and r: "r = read_float pyfloat d (inp (pos + k))"
    and p: "pos' = (case inp (pos + k) of None \<Rightarrow> pos + k | Some _ \<Rightarrow> Suc (pos + k))"
    and out: "out' = out @ reprompts str prompt d k @ [prompt_text str prompt d]"
    by auto
  from ok r show "r \<noteq> Inl ValueError"
    by (simp add: read_float_ValueError)
  have "case r of
          Inr u \<Rightarrow>
            pos' = pos + k + 1 \<and>
            (\<exists>t. inp (pos + k) = Some t \<and> (if t = [] then u = d else pyfloat t = Some u))
        | Inl e \<Rightarrow> e = EOFError \<and> pos' = pos + k \<and> inp (pos + k) = None"
    using ok r p
    by (auto simp: read_float_def invalid_line_def split: option.splits sum.splits)
  with inv out
  show "\<exists>k. (\<forall>i<k. invalid_line pyfloat (inp (pos + i))) \<and>
           out' = out @ reprompts str prompt d k @ [prompt_text str prompt d] \<and>
           (case r of
              Inr u \<Rightarrow>
                pos' = pos + k + 1 \<and>
                (\<exists>t. inp (pos + k) = Some t \<and> (if t = [] then u = d else pyfloat t = Some u))
            | Inl e \<Rightarrow> e = EOFError \<and> pos' = pos + k \<and> inp (pos + k) = None)"
    by blast
qed

theorem get_float_input_reprompts_until_valid_witness:
  "get_float_input float_sample str_sample (stdin_of [''abc'', ''x'', ''2.5''])
     ''Masa seca del CanSat (kg)'' default_cansat_mass 0 [] =
   Some (Inr 2.5, 3,
         [''Masa seca del CanSat (kg) [0.3]: '', invalid_entry_msg,
          ''Masa seca del CanSat (kg) [0.3]: '', invalid_entry_msg,
          ''Masa seca del CanSat (kg) [0.3]: '']) \<and>
   get_float_input float_sample str_sample (\<lambda>i. Some ''abc'')
     ''Masa seca del CanSat (kg)'' default_cansat_mass 0 [] = None \<and>
   (Inr 2.5 :: error + real) \<noteq> Inl ValueError"
proof -
  have bad: "\<forall>i<2. invalid_line float_sample (stdin_of [''abc'', ''x'', ''2.5''] (0 + i))"
  proof (intro allI impI)
    fix i :: nat assume "i < 2"
    then have "i = 0 \<or> i = 1" by auto
    then show "invalid_line float_sample (stdin_of [''abc'', ''x'', ''2.5''] (0 + i))"
      by (auto simp: stdin_of_def invalid_line_abc invalid_line_x)
  qed
  have good: "stdin_of [''abc'', ''x'', ''2.5''] (0 + 2) = Some ''2.5''"
    by (simp add: stdin_of_def)
  have val: "''2.5'' \<noteq> [] \<and> float_sample ''2.5'' = Some 2.5"
    by (simp add: float_sample_def)
  have always: "\<forall>i. invalid_line float_sample ((\<lambda>i. Some ''abc'') (0 + i))"
    by (simp add: invalid_line_abc)
  have p: "prompt_text str_sample ''Masa seca del CanSat (kg)'' default_cansat_mass =
           ''Masa seca del CanSat (kg) [0.3]: ''"
    by (simp add: prompt_text_def str_sample_def default_cansat_mass_def)
  have two: "reprompts str_sample ''Masa seca del CanSat (kg)'' default_cansat_mass 2 =
           [''Masa seca del CanSat (kg) [0.3]: '', invalid_entry_msg,
            ''Masa seca del CanSat (kg) [0.3]: '', invalid_entry_msg]"
    by (simp add: reprompts_def p numeral_2_eq_2)
  note run = get_float_input_reprompts_until_valid
    [where n = 2 and pyfloat = float_sample and inp = "stdin_of [''abc'', ''x'', ''2.5'']"
       and pos = 0 and s = "''2.5''" and v = "2.5" and str = str_sample
       and prompt = "''Masa seca del CanSat (kg)''" and d = default_cansat_mass and out = "[]"]
  note loop = get_float_input_reprompts_until_valid
    [where n = 0 and pyfloat = float_sample and inp = "\<lambda>i. Some ''abc''"
       and pos = 0 and s = "[]" and v = default_cansat_mass and str = str_sample
       and prompt = "''Masa seca del CanSat (kg)''" and d = default_cansat_mass and out = "[]"]
  from run bad good val
  have 1: "get_float_input float_sample str_sample (stdin_of [''abc'', ''x'', ''2.5''])
     ''Masa seca del CanSat (kg)'' default_cansat_mass 0 [] =
     Some (Inr 2.5, 0 + 2 + 1,
       [] @ reprompts str_sample ''Masa seca del CanSat (kg)'' default_cansat_mass 2 @
       [prompt_text str_sample ''Masa seca del CanSat (kg)'' default_cansat_mass])"
    by blast
  from loop always
  have 2: "get_float_input float_sample str_sample (\<lambda>i. Some ''abc'')
     ''Masa seca del CanSat (kg)'' default_cansat_mass 0 [] = None"
    by blast
  from 1 2 show ?thesis by (simp add: p two)
qed

section \<open>The plotting library: the current figure and fresh numbers\<close>

lemma column_eq:
  "column a j = (if j < ncols a then Inr (col_values a j) else Inl IndexError)"
  by (simp add: column_def col_values_def)

lemma le_fold_max: "x \<in> set xs \<Longrightarrow> (x :: nat) \<le> fold max xs a"
proof (induction xs arbitrary: a)
  case Nil
  then show ?case by simp
next
  case (Cons y ys)
  have mono: "\<And>b. b \<le> fold max ys b"
  proof -
    fix b show "b \<le> fold max ys b"
      by (induction ys arbitrary: b) (auto intro: order_trans [OF max.cobounded2])
  qed
  show ?case
  proof (cases "x = y")
    case True
    then show ?thesis using mono [of "max y a"] by simp
  next
    case False
    with Cons show ?thesis by simp
  qed
qed

lemma number_less_next_num: "fig \<in> set fs \<Longrightarrow> number fig < next_num fs"
  using le_fold_max [of "number fig" "map number fs" 0]
  by (auto simp: next_num_def less_Suc_eq_le)

lemma number_fresh: "fig \<in> set fs \<Longrightarrow> number fig \<noteq> next_num fs"
  using number_less_next_num [of fig fs] by simp

lemma next_num_snoc:
  "number fig = next_num fs \<Longrightarrow> next_num (fs @ [fig]) = Suc (next_num fs)"
proof -
  assume n: "number fig = next_num fs"
  have "fold max (map number fs) 0 < next_num fs"
    by (simp add: next_num_def)
  then show ?thesis
    using n by (simp add: next_num_def max_def)
qed

lemma gcf_snoc: "gcf (fs @ [fig]) = fs @ [fig]"
  by (simp add: gcf_def)

lemma on_current_figure_snoc: "on_current_figure g (fs @ [fig]) = fs @ [g fig]"
  by (simp add: on_current_figure_def gcf_snoc)

lemma on_current_axes_snoc:
  "panels fig = ps @ [ax] \<Longrightarrow>
   on_current_axes g (fs @ [fig]) = fs @ [fig\<lparr>panels := ps @ [g ax]\<rparr>]"
  by (simp add: on_current_axes_def on_current_figure_snoc gca_def)

lemma on_figure_fresh:
  assumes "number fig = next_num fs"
  shows "on_figure (next_num fs) g (fs @ [fig]) = fs @ [g fig]"
proof -
  have "map (\<lambda>f. if number f = next_num fs then g f else f) fs = fs"
    by (intro map_idI) (auto dest: number_fresh)
  with assms show ?thesis by (simp add: on_figure_def)
qed

lemma on_axes_fresh:
  assumes "number fig = next_num fs" and "k < length (panels fig)"
  shows "on_axes (next_num fs) k g (fs @ [fig]) =
         fs @ [fig\<lparr>panels := (panels fig)[k := g (panels fig ! k)]\<rparr>]"
  using assms by (simp add: on_axes_def on_figure_fresh)


lemma find_append_None: "find P xs = None \<Longrightarrow> find P (xs @ ys) = find P ys"
  by (induction xs) (auto split: if_splits)

lemma the_figure_fresh:
  assumes "number fig = next_num fs"
  shows "the_figure (next_num fs) (fs @ [fig]) = fig"
proof -
  have "find (\<lambda>f. number f = next_num fs) fs = None"
    by (auto simp: find_None_iff dest: number_fresh)
  with assms show ?thesis by (simp add: the_figure_def find_append_None)
qed

section \<open>The terminal script: the figures built\<close>

lemma graficas_2d_wide:
  assumes "7 \<le> ncols a"
  shows "graficas_2d a fs = (None, fs @ [time_series_figure (next_num fs) a])"
  using assms
  by (simp add: graficas_2d_def column_eq plt_figure_def plt_subplot_def plt_plot_def
      plt_legend_def plt_tight_layout_def on_current_figure_snoc on_current_axes_snoc
      on_current_axes_snoc [where ps = "[]", simplified]
      time_series_figure_def altitude_panel_def velocity_panel_def new_axes_def)

lemma grafica_3d_wide:
  assumes "4 \<le> ncols a"
  shows "grafica_3d a fs = (None, fs @ [trajectory_figure (next_num fs) a])"
  using assms
  by (simp add: grafica_3d_def column_eq plt_figure_def fig_add_subplot_def ax_plot_def
      ax_legend_def ax_grid_def on_figure_fresh on_axes_fresh
      trajectory_figure_def new_axes_def)

lemma graficas_2d_narrow:
  assumes "0 < ncols a" and "ncols a < 7"
  shows "fst (graficas_2d a fs) = Some IndexError"
  using assms by (simp add: graficas_2d_def column_eq Let_def)

lemma terminal_results_wide:
  assumes "size_of a \<noteq> 0" and "7 \<le> ncols a"
  shows "terminal_results se now (Inr a) w =
         (Finished,
          w\<lparr>figs := figs w @ [time_series_figure (next_num (figs w)) a,
                              trajectory_figure (Suc (next_num (figs w))) a],
            files := files w @
              [(generate_file_name_custom now, trajectory_figure (Suc (next_num (figs w))) a)],
            shown := shown w @ figs w @
              [time_series_figure (next_num (figs w)) a,
               trajectory_figure (Suc (next_num (figs w))) a]\<rparr>)"
proof -
  have n: "next_num (figs w @ [time_series_figure (next_num (figs w)) a]) = Suc (next_num (figs w))"
    by (rule next_num_snoc) (simp add: time_series_figure_def)
  from assms show ?thesis
    by (simp add: terminal_results_def graficas_2d_wide grafica_3d_wide n
        plt_savefig_def plt_show_def
        gcf_snoc [where fs = "fs @ [f]" for fs f, simplified])
qed

lemma terminal_results_narrow:
  assumes "size_of a \<noteq> 0" and "ncols a < 7"
  shows "fst (terminal_results se now (Inr a) w) = Raised IndexError"
    and "stdout (snd (terminal_results se now (Inr a) w)) = stdout w"
    and "files (snd (terminal_results se now (Inr a) w)) = files w"
proof -
  from assms have pos: "0 < ncols a" by (simp add: size_of_def)
  obtain e fs1 where g: "graficas_2d a (figs w) = (e, fs1)" by (cases "graficas_2d a (figs w)")
  with graficas_2d_narrow [OF pos assms(2), of "figs w"] have e: "e = Some IndexError" by simp
  from assms g e show "fst (terminal_results se now (Inr a) w) = Raised IndexError"
    and "stdout (snd (terminal_results se now (Inr a) w)) = stdout w"
    and "files (snd (terminal_results se now (Inr a) w)) = files w"
    by (simp_all add: terminal_results_def)
qed


lemma strftime_sample: "generate_file_name_custom sample_now = ''20250503_225200.png''"
  by (simp add: generate_file_name_custom_def strftime_def zero_pad_def digit_def sample_now_def
      upt_rec [of _ "numeral n" for n])




lemma sample_array_simps:
  "nrows (sample_array r c) = r" "ncols (sample_array r c) = c"
  "cell (sample_array r c) i j = real (10 * i + j)"
  by (simp_all add: sample_array_def)



section \<open>The web view: the vehicle is never built\<close>

lemma eval_rocket_kwargs:
  "eval_kwargs names_at_line_89 rocket_kwargs = Inl (NameError ''inertia_IxIy'')"
  by (simp add: rocket_kwargs_def names_at_line_89_def local_names_def module_names_def)

lemma ejecutar_body_eq:
  "ejecutar_body env eng w =
     (case new_environment eng of
        Some e \<Rightarrow> (Inl e, w\<lparr>stdout := stdout w @ [start_msg, environment_msg]\<rparr>)
      | None \<Rightarrow>
          (case new_solid_motor eng (GasMotor default_avg_thrust default_burn_time) of
             Inl e \<Rightarrow>
               (Inl e,
                w\<lparr>stdout := stdout w @
                     [start_msg, environment_msg, environment_done_msg, motor_msg]\<rparr>)
           | Inr m \<Rightarrow>
               (Inl (NameError ''inertia_IxIy''),
                w\<lparr>stdout := stdout w @
                     [start_msg, environment_msg, environment_done_msg, motor_msg,
                      motor_created_msg (fst m) (snd m), cansat_msg]\<rparr>)))"
  by (simp add: ejecutar_body_def eval_rocket_kwargs Let_def
      split: option.splits sum.splits prod.splits)

lemma ejecutar_body_raises: "\<exists>e. fst (ejecutar_body env eng w) = Inl e"
  by (simp add: ejecutar_body_eq split: option.splits sum.splits)




lemma sublist_Error_fragment: "sublist ''Error'' (pre @ error_fragment env e @ post)"
proof -
  have "pre @ error_fragment env e @ post =
      (pre @ ''<h2>'') @ ''Error'' @
      (('' en la Simulaci'' @ o_acute @ ''n</h2><p>Ha ocurrido un error:</p><pre>'' @
       str_exc env e @ ''</pre><pre>'' @ format_exc env e @ ''</pre>'') @ post)"
    by (simp add: error_fragment_def)
  then show ?thesis
    by (simp only: sublist_appendI)
qed

lemma ejecutar_sample_engine:
  "ejecutar_simulacion_y_graficar sample_env (sample_engine fl) empty_world =
     (error_fragment sample_env (NameError ''inertia_IxIy''),
      empty_world
        \<lparr>stdout := [start_msg, environment_msg, environment_done_msg, motor_msg,
                     motor_created_msg ''SolidMotor'' ''2.0'', cansat_msg,
                     critical_msg sample_env (NameError ''inertia_IxIy''),
                     ''Traceback (most recent call last): ...'']\<rparr>)"
proof -
  have f: "format_exc sample_env e = ''Traceback (most recent call last): ...''" for e
    by (simp add: sample_env_def)
  have s: "new_environment (sample_engine fl) = None"
    "new_solid_motor (sample_engine fl) kw = Inr (''SolidMotor'', ''2.0'')" for kw
    by (simp_all add: sample_engine_def)
  show ?thesis
    by (simp add: ejecutar_simulacion_y_graficar_def ejecutar_body_eq s f)
       (simp add: empty_world_def)
qed

section \<open>The claims on the motor, the terminal script and the web view\<close>

lemma next_num_Nil: "next_num [] = 1"
  by (simp add: next_num_def)

lemma size_of_sample: "size_of (sample_array r c) = r * c"
  by (simp add: size_of_def sample_array_def)

lemma terminal_sample_wide:
  assumes "0 < r" and "7 \<le> c"
  shows "terminal_results (str_exc sample_env) sample_now (Inr (sample_array r c)) empty_world =
     (Finished,
      empty_world
        \<lparr>figs := [time_series_figure 1 (sample_array r c), trajectory_figure 2 (sample_array r c)],
         files := [(''20250503_225200.png'', trajectory_figure 2 (sample_array r c))],
         shown := [time_series_figure 1 (sample_array r c),
                   trajectory_figure 2 (sample_array r c)]\<rparr>)"
proof -
  have s: "size_of (sample_array r c) \<noteq> 0" using assms by (simp add: size_of_sample)
  have c: "7 \<le> ncols (sample_array r c)" using assms by (simp add: sample_array_def)
  show ?thesis
    by (simp add: terminal_results_wide [OF s c] strftime_sample)
       (simp add: empty_world_def next_num_Nil numeral_2_eq_2)
qed

text \<open>
  Claim C8: both front-ends describe the motor by the same burn time \<open>B\<close> and average
  thrust \<open>T\<close>, but the terminal script passes the thrust as the constant \<open>T\<close> and the
  web view as the curve of the two points \<open>(0, T)\<close> and \<open>(B, T)\<close>; the two thrust
  sources are never the same value.
\<close>

theorem motor_thrust_encodings:
  "thrust_source (gas_motor T B) = Constant T \<and> burn_time (gas_motor T B) = B \<and>
   thrustSource (GasMotor T B) = Curve [(0, T), (B, T)] \<and> burnOut (GasMotor T B) = B \<and>
   thrust_source (gas_motor T B) \<noteq> thrustSource (GasMotor T B)"
  by (simp add: gas_motor_def GasMotor_def thrust_curve_def)

text \<open>
  Claim C9: the terminal script reads columns 0, 1, 2, 3 and 6 of the solution matrix by
  position and checks nothing before. For a matrix that passed the only guard
  (\<^verbatim>\<open>size != 0\<close>), all five reads are in range exactly when there are at least seven
  columns; on a narrower matrix the script ends with the IndexError of an unguarded read
  (that of column 6 is always out of range then), and no warning is printed.
\<close>

theorem terminal_column_reads_unchecked:
  assumes "size_of a \<noteq> 0"
  shows "((\<forall>j \<in> set [0, 1, 2, 3, 6]. column a j = Inr (col_values a j)) \<longleftrightarrow> 7 \<le> ncols a) \<and>
         fst (terminal_results se now (Inr a) w) =
           (if 7 \<le> ncols a then Finished else Raised IndexError) \<and>
         (ncols a < 7 \<longrightarrow>
            column a 6 = Inl IndexError \<and>
            stdout (snd (terminal_results se now (Inr a) w)) = stdout w)"
proof (intro conjI impI)
  show "(\<forall>j \<in> set [0, 1, 2, 3, 6]. column a j = Inr (col_values a j)) \<longleftrightarrow> 7 \<le> ncols a"
    by (auto simp: column_eq)
  show "fst (terminal_results se now (Inr a) w) =
           (if 7 \<le> ncols a then Finished else Raised IndexError)"
  proof (cases "7 \<le> ncols a")
    case True
    with assms show ?thesis by (simp add: terminal_results_wide)
  next
    case False
    then have "ncols a < 7" by simp
    from terminal_results_narrow(1) [OF assms this] False show ?thesis by simp
  qed
next
  assume "ncols a < 7"
  then show "column a 6 = Inl IndexError" by (simp add: column_eq)
next
  assume "ncols a < 7"
  from terminal_results_narrow(2) [OF assms this]
  show "stdout (snd (terminal_results se now (Inr a) w)) = stdout w" .
qed

theorem terminal_column_reads_unchecked_witness:
  "size_of (sample_array 2 7) \<noteq> 0 \<and>
   fst (terminal_results (str_exc sample_env) sample_now (Inr (sample_array 2 7)) empty_world) =
     Finished \<and>
   size_of (sample_array 2 4) \<noteq> 0 \<and> ncols (sample_array 2 4) < 7 \<and>
   column (sample_array 2 4) 6 = Inl IndexError \<and>
   fst (terminal_results (str_exc sample_env) sample_now (Inr (sample_array 2 4)) empty_world) =
     Raised IndexError \<and>
   stdout (snd (terminal_results (str_exc sample_env) sample_now (Inr (sample_array 2 4))
     empty_world)) = []"
proof -
  have a: "size_of (sample_array 2 7) \<noteq> 0" by (simp add: size_of_sample)
  have b: "size_of (sample_array 2 4) \<noteq> 0" by (simp add: size_of_sample)
  have c: "ncols (sample_array 2 7) = 7" "ncols (sample_array 2 4) = 4"
    by (simp_all add: sample_array_def)
  show ?thesis
    using terminal_column_reads_unchecked [OF a, of "str_exc sample_env" sample_now empty_world]
          terminal_column_reads_unchecked [OF b, of "str_exc sample_env" sample_now empty_world]
    by (simp add: a b c) (simp add: empty_world_def)
qed

text \<open>
  Claim C7 says that the terminal script writes both figures to the PNG file. Evaluated
  on a matrix of two rows and seven columns at 2025-05-03 22:52:00, the script writes one
  file, \<^verbatim>\<open>20250503_225200.png\<close>, which holds the trajectory figure only:
  \<^verbatim>\<open>plt.savefig\<close> saves the current figure, the last one created. The figure of the two
  time series is displayed but is in no file.
\<close>

theorem terminal_saves_only_trajectory:
  "files (snd (terminal_results (str_exc sample_env) sample_now (Inr (sample_array 2 7))
     empty_world)) =
     [(''20250503_225200.png'', trajectory_figure 2 (sample_array 2 7))] \<and>
   shown (snd (terminal_results (str_exc sample_env) sample_now (Inr (sample_array 2 7))
     empty_world)) =
     [time_series_figure 1 (sample_array 2 7), trajectory_figure 2 (sample_array 2 7)] \<and>
   time_series_figure 1 (sample_array 2 7) \<notin>
     snd ` set (files (snd (terminal_results (str_exc sample_env) sample_now
       (Inr (sample_array 2 7)) empty_world)))"
  by (simp add: terminal_sample_wide) (simp add: time_series_figure_def trajectory_figure_def)







text \<open>
  Claim C5: an exception raised while the environment or the motor is built reaches the
  handler of \<^verbatim>\<open>ejecutar_simulacion_y_graficar\<close>; whatever exception \<open>e\<close> leaves the
  \<^verbatim>\<open>try\<close> block, the function returns the error fragment of \<open>e\<close>, having printed
  the message with \<open>e\<close> and the trace; the answer to \<^verbatim>\<open>GET /\<close> then has status 200
  and a body that contains the word \<^verbatim>\<open>Error\<close>. The answer has status 200 and such a
  body in every case, whatever the engine does.
\<close>

theorem exceptions_become_error_page:
  "(new_environment eng = Some e \<longrightarrow> fst (ejecutar_body env eng w) = Inl e) \<and>
   (new_environment eng = None \<and>
    new_solid_motor eng (GasMotor default_avg_thrust default_burn_time) = Inl e \<longrightarrow>
      fst (ejecutar_body env eng w) = Inl e) \<and>
   (fst (ejecutar_body env eng w) = Inl e \<longrightarrow>
      fst (ejecutar_simulacion_y_graficar env eng w) = error_fragment env e \<and>
      stdout (snd (ejecutar_simulacion_y_graficar env eng w)) =
        stdout (snd (ejecutar_body env eng w)) @ [critical_msg env e, format_exc env e] \<and>
      fst (get_root env eng w) =
        Response 200 (template_head @ error_fragment env e @ template_tail) \<and>
      sublist ''Error'' (template_head @ error_fragment env e @ template_tail)) \<and>
   (\<exists>body. fst (get_root env eng w) = Response 200 body \<and> sublist ''Error'' body)"
proof (intro conjI impI)
  assume "new_environment eng = Some e"
  then show "fst (ejecutar_body env eng w) = Inl e"
    by (simp add: ejecutar_body_eq)
next
  assume "new_environment eng = None \<and>
    new_solid_motor eng (GasMotor default_avg_thrust default_burn_time) = Inl e"
  then show "fst (ejecutar_body env eng w) = Inl e"
    by (simp add: ejecutar_body_eq)
next
  assume h: "fst (ejecutar_body env eng w) = Inl e"
  obtain v where b: "ejecutar_body env eng w = (Inl e, v)"
    using h by (cases "ejecutar_body env eng w") simp
  from b show "fst (ejecutar_simulacion_y_graficar env eng w) = error_fragment env e"
    by (simp add: ejecutar_simulacion_y_graficar_def)
  from b show "stdout (snd (ejecutar_simulacion_y_graficar env eng w)) =
        stdout (snd (ejecutar_body env eng w)) @ [critical_msg env e, format_exc env e]"
    by (simp add: ejecutar_simulacion_y_graficar_def)
  from b show "fst (get_root env eng w) =
        Response 200 (template_head @ error_fragment env e @ template_tail)"
    by (simp add: get_root_def home_def ejecutar_simulacion_y_graficar_def)
  show "sublist ''Error'' (template_head @ error_fragment env e @ template_tail)"
    by (rule sublist_Error_fragment)
next
  from ejecutar_body_raises [of env eng w] obtain x v
    where b: "ejecutar_body env eng w = (Inl x, v)"
    by (cases "ejecutar_body env eng w") auto
  then have "fst (get_root env eng w) =
        Response 200 (template_head @ error_fragment env x @ template_tail)"
    by (simp add: get_root_def home_def ejecutar_simulacion_y_graficar_def)
  then show "\<exists>body. fst (get_root env eng w) = Response 200 body \<and> sublist ''Error'' body"
    using sublist_Error_fragment [of template_head env x template_tail] by simp
qed

theorem exceptions_become_error_page_witness:
  "new_environment failing_engine = Some (OtherError ''engine failure'') \<and>
   fst (ejecutar_simulacion_y_graficar sample_env failing_engine empty_world) =
     error_fragment sample_env (OtherError ''engine failure'') \<and>
   stdout (snd (ejecutar_simulacion_y_graficar sample_env failing_engine empty_world)) =
     [start_msg, environment_msg, critical_msg sample_env (OtherError ''engine failure''),
      ''Traceback (most recent call last): ...''] \<and>
   fst (get_root sample_env failing_engine empty_world) =
     Response 200
       (template_head @ error_fragment sample_env (OtherError ''engine failure'') @
        template_tail) \<and>
   sublist ''Error''
     (template_head @ error_fragment sample_env (OtherError ''engine failure'') @
      template_tail) \<and>
   new_environment failing_motor_engine = None \<and>
   new_solid_motor failing_motor_engine (GasMotor default_avg_thrust default_burn_time) =
     Inl TypeError \<and>
   fst (ejecutar_body sample_env failing_motor_engine empty_world) = Inl TypeError \<and>
   fst (get_root sample_env failing_motor_engine empty_world) =
     Response 200 (template_head @ error_fragment sample_env TypeError @ template_tail) \<and>
   fst (ejecutar_body sample_env (sample_engine (sample_flight (sample_array 2 7) None))
     empty_world) = Inl (NameError ''inertia_IxIy'') \<and>
   fst (get_root sample_env (sample_engine (sample_flight (sample_array 2 7) None))
     empty_world) =
     Response 200
       (template_head @ error_fragment sample_env (NameError ''inertia_IxIy'') @
        template_tail)"
proof -
  have o: "new_environment failing_engine = Some (OtherError ''engine failure'')"
    by (simp add: failing_engine_def)
  note t = exceptions_become_error_page
    [where eng = failing_engine and e = "OtherError ''engine failure''"
       and env = sample_env and w = empty_world]
  note b = t [THEN conjunct1, THEN mp, OF o]
  note r = t [THEN conjunct2, THEN conjunct2, THEN conjunct1, THEN mp, OF b]
  have s: "stdout (snd (ejecutar_body sample_env failing_engine empty_world)) =
      [start_msg, environment_msg]"
    by (simp add: ejecutar_body_eq failing_engine_def empty_world_def)
  have f: "format_exc sample_env (OtherError ''engine failure'') =
      ''Traceback (most recent call last): ...''"
    by (simp add: sample_env_def)
  have n: "fst (ejecutar_body sample_env (sample_engine (sample_flight (sample_array 2 7) None))
     empty_world) = Inl (NameError ''inertia_IxIy'')"
    by (simp add: ejecutar_body_eq sample_engine_def)
  note r' = exceptions_become_error_page
    [where eng = "sample_engine (sample_flight (sample_array 2 7) None)"
       and e = "NameError ''inertia_IxIy''" and env = sample_env and w = empty_world,
     THEN conjunct2, THEN conjunct2, THEN conjunct1, THEN mp, OF n]
  have m: "new_environment failing_motor_engine = None \<and>
      new_solid_motor failing_motor_engine (GasMotor default_avg_thrust default_burn_time) =
        Inl TypeError"
    by (simp add: failing_motor_engine_def)
  note t2 = exceptions_become_error_page
    [where eng = failing_motor_engine and e = TypeError and env = sample_env
       and w = empty_world]
  note b2 = t2 [THEN conjunct2, THEN conjunct1, THEN mp, OF m]
  note r2 = t2 [THEN conjunct2, THEN conjunct2, THEN conjunct1, THEN mp, OF b2]
  from o r r' n m b2 r2 show ?thesis
    by (simp add: s f)
qed



text \<open>
  Claim C10 describes the guard of lines 162-181, which no request reaches. Evaluated
  with an engine whose calls all succeed and whose flight would carry a matrix of two
  rows and three columns and a plot of its own: the keyword arguments of
  \<^verbatim>\<open>rp.Rocket\<close> are evaluated from left to right, the sixth reads the name
  \<^verbatim>\<open>inertia_IxIy\<close>, which is bound nowhere, and NameError is raised at line 98,
  before any flight exists. The text returned is the error fragment of that exception;
  no altitude figure is encoded and the explanatory message is not part of the output.
\<close>

theorem trajectory_guard_never_reached:
  "nrows (sample_array 2 3) = 2 \<and> ncols (sample_array 2 3) = 3 \<and>
   new_flight (sample_engine (sample_flight (sample_array 2 3) engine_plot)) =
     Inr (sample_flight (sample_array 2 3) engine_plot) \<and>
   names_at_line_89 ''inertia_IxIy'' = None \<and>
   eval_kwargs names_at_line_89 rocket_kwargs = Inl (NameError ''inertia_IxIy'') \<and>
   ejecutar_simulacion_y_graficar sample_env
     (sample_engine (sample_flight (sample_array 2 3) engine_plot)) empty_world =
     (error_fragment sample_env (NameError ''inertia_IxIy''),
      empty_world
        \<lparr>stdout := [start_msg, environment_msg, environment_done_msg, motor_msg,
                     motor_created_msg ''SolidMotor'' ''2.0'', cansat_msg,
                     critical_msg sample_env (NameError ''inertia_IxIy''),
                     ''Traceback (most recent call last): ...'']\<rparr>) \<and>
   buffers (snd (ejecutar_simulacion_y_graficar sample_env
     (sample_engine (sample_flight (sample_array 2 3) engine_plot)) empty_world)) = [] \<and>
   error_fragment sample_env (NameError ''inertia_IxIy'') =
     ''<h2>Error en la Simulaci'' @ o_acute @
     ''n</h2><p>Ha ocurrido un error:</p><pre>name 'inertia_IxIy' is not defined</pre>'' @
     ''<pre>Traceback (most recent call last): ...</pre>''"
  by (simp add: ejecutar_sample_engine eval_rocket_kwargs sample_array_simps)
     (simp add: sample_engine_def empty_world_def names_at_line_89_def local_names_def
        module_names_def error_fragment_def sample_env_def squote_def)

end
